theory Spec2Isabelle
  imports Complex_Main
begin

section \<open>Clock and formatting utilities (js/utils.js, \<open>Utils\<close>)\<close>

text \<open>
  A JavaScript \<open>Date\<close> is modelled by the integer number of milliseconds of local wall-clock
  time since 1 January 1970, 00:00 local time. The offset between local time and UTC is taken
  to be constant, so it cancels in every comparison of two instants and the round trip
  \<open>new Date(d.toISOString())\<close> is the identity. The calendar fields of an instant are
  computed with the usual proleptic Gregorian day-number arithmetic, which is what
  \<open>getFullYear\<close>, \<open>getMonth\<close>, \<open>getDate\<close> and the constructor
  \<open>new Date(year, monthIndex, day)\<close> implement.
\<close>

definition msPerDay :: int where
  "msPerDay = 86400000"

definition days_from_civil :: "int \<Rightarrow> int \<Rightarrow> int \<Rightarrow> int" where
  "days_from_civil y0 m d =
     (let y = (if m \<le> 2 then y0 - 1 else y0);
          era = y div 400;
          yoe = y - era * 400;
          doy = (153 * (if m > 2 then m - 3 else m + 9) + 2) div 5 + d - 1;
          doe = yoe * 365 + yoe div 4 - yoe div 100 + doy
      in era * 146097 + doe - 719468)"

definition civil_from_days :: "int \<Rightarrow> int \<times> int \<times> int" where
  "civil_from_days z0 =
     (let z = z0 + 719468;
          era = z div 146097;
          doe = z - era * 146097;
          yoe = (doe - doe div 1460 + doe div 36524 - doe div 146096) div 365;
          y = yoe + era * 400;
          doy = doe - (365 * yoe + yoe div 4 - yoe div 100);
          mp = (5 * doy + 2) div 153;
          d = doy - (153 * mp + 2) div 5 + 1;
          m = (if mp < 10 then mp + 3 else mp - 9)
      in (if m \<le> 2 then y + 1 else y, m, d))"

text \<open>\<open>new Date(year, monthIndex, day)\<close>: local midnight of the given day. The month index
  and the day may be out of range and are carried over (\<open>new Date(y, m, 0)\<close> is the last
  day of month index \<open>m - 1\<close>); a year from 0 to 99 means 1900 + year.\<close>

definition newDate :: "int \<Rightarrow> int \<Rightarrow> int \<Rightarrow> int" where
  "newDate year monthIndex day =
     (let yr = (if 0 \<le> year \<and> year \<le> 99 then 1900 + year else year);
          ym = yr + monthIndex div 12;
          mn = monthIndex mod 12
      in (days_from_civil ym (mn + 1) 1 + day - 1) * msPerDay)"

definition getFullYear :: "int \<Rightarrow> int" where
  "getFullYear t = fst (civil_from_days (t div msPerDay))"

text \<open>\<open>getMonth\<close> is zero-based.\<close>

definition getMonth :: "int \<Rightarrow> int" where
  "getMonth t = fst (snd (civil_from_days (t div msPerDay))) - 1"

definition getDate :: "int \<Rightarrow> int" where
  "getDate t = snd (snd (civil_from_days (t div msPerDay)))"

definition getHours :: "int \<Rightarrow> int" where
  "getHours t = (t mod msPerDay) div 3600000"

definition getMinutes :: "int \<Rightarrow> int" where
  "getMinutes t = (t mod 3600000) div 60000"

definition getSeconds :: "int \<Rightarrow> int" where
  "getSeconds t = (t mod 60000) div 1000"

subsection \<open>Strings of numbers\<close>

definition digit :: "nat \<Rightarrow> char" where
  "digit d = char_of (48 + d)"

fun String_nat :: "nat \<Rightarrow> string" where
  "String_nat n = (if n < 10 then [digit n] else String_nat (n div 10) @ [digit (n mod 10)])"

declare String_nat.simps [simp del]

text \<open>\<open>String(n)\<close> for an integer \<open>n\<close>.\<close>

definition String_int :: "int \<Rightarrow> string" where
  "String_int i = (if i < 0 then CHR ''-'' # String_nat (nat (- i)) else String_nat (nat i))"

definition padStart :: "nat \<Rightarrow> char \<Rightarrow> string \<Rightarrow> string" where
  "padStart n c s = replicate (n - length s) c @ s"

text \<open>\<open>s.split(c)\<close> for a one-character separator; the empty string splits into one empty
  piece.\<close>

fun split_on :: "char \<Rightarrow> string \<Rightarrow> string list" where
  "split_on c [] = [[]]"
| "split_on c (x # xs) =
     (if x = c then [] # split_on c xs
      else (case split_on c xs of [] \<Rightarrow> [[x]] | w # ws \<Rightarrow> (x # w) # ws))"

text \<open>
  A JavaScript number that is an integer or \<open>NaN\<close> is an \<open>int option\<close>, \<open>None\<close> being
  \<open>NaN\<close>. \<open>Number(s)\<close> is modelled on strings of decimal digits (the empty string is 0),
  which is all that \<open>formatTime\<close> and the configured schedule produce; every other string
  is taken to \<open>NaN\<close> (signs, fractions, exponents, blanks and hexadecimal literals are
  left out of the model).
\<close>

definition is_digit :: "char \<Rightarrow> bool" where
  "is_digit c = (48 \<le> (of_char c :: nat) \<and> (of_char c :: nat) \<le> 57)"

definition digits_value :: "string \<Rightarrow> nat" where
  "digits_value s = foldl (\<lambda>acc c. 10 * acc + (of_char c - 48)) 0 s"

definition Number :: "string \<Rightarrow> int option" where
  "Number s = (if list_all is_digit s then Some (int (digits_value s)) else None)"

text \<open>Array destructuring \<open>[a, b] = xs\<close>: a missing element is \<open>undefined\<close>, which
  arithmetic turns into \<open>NaN\<close>.\<close>

definition element :: "int option list \<Rightarrow> nat \<Rightarrow> int option" where
  "element xs i = (if i < length xs then xs ! i else None)"

definition num_add :: "int option \<Rightarrow> int option \<Rightarrow> int option" where
  "num_add a b = (case (a, b) of (Some x, Some y) \<Rightarrow> Some (x + y) | _ \<Rightarrow> None)"

definition num_sub :: "int option \<Rightarrow> int option \<Rightarrow> int option" where
  "num_sub a b = (case (a, b) of (Some x, Some y) \<Rightarrow> Some (x - y) | _ \<Rightarrow> None)"

definition num_mul :: "int option \<Rightarrow> int option \<Rightarrow> int option" where
  "num_mul a b = (case (a, b) of (Some x, Some y) \<Rightarrow> Some (x * y) | _ \<Rightarrow> None)"

text \<open>Comparisons with \<open>NaN\<close> are false.\<close>

definition num_gt :: "int option \<Rightarrow> int option \<Rightarrow> bool" where
  "num_gt a b = (case (a, b) of (Some x, Some y) \<Rightarrow> x > y | _ \<Rightarrow> False)"

definition num_lt :: "int option \<Rightarrow> int option \<Rightarrow> bool" where
  "num_lt a b = (case (a, b) of (Some x, Some y) \<Rightarrow> x < y | _ \<Rightarrow> False)"

subsection \<open>formatDate, formatTime\<close>

text \<open>With the default formats \<open>'DD/MM/YYYY'\<close> and \<open>'HH:mm:ss'\<close>; the instant is a valid
  date.\<close>

definition formatDate :: "int \<Rightarrow> string" where
  "formatDate d =
     (let day = padStart 2 (CHR ''0'') (String_int (getDate d));
          month = padStart 2 (CHR ''0'') (String_int (getMonth d + 1));
          year = String_int (getFullYear d)
      in day @ ''/'' @ month @ ''/'' @ year)"

definition formatTime :: "int \<Rightarrow> string" where
  "formatTime d =
     (let hours = padStart 2 (CHR ''0'') (String_int (getHours d));
          minutes = padStart 2 (CHR ''0'') (String_int (getMinutes d));
          seconds = padStart 2 (CHR ''0'') (String_int (getSeconds d))
      in hours @ '':'' @ minutes @ '':'' @ seconds)"

subsection \<open>calculateTimeDifference\<close>

text \<open>Both arguments are valid dates in the callers modelled here; \<open>Math.floor\<close> of the
  quotient is the integer quotient rounded down, and \<open>%\<close> takes the sign of the dividend.\<close>

definition js_rem :: "int \<Rightarrow> int \<Rightarrow> int" where
  "js_rem a b = (if a < 0 then - ((- a) mod \<bar>b\<bar>) else a mod \<bar>b\<bar>)"

record time_difference =
  hours :: int
  minutes :: int
  totalMinutes :: int

definition calculateTimeDifference :: "int \<Rightarrow> int \<Rightarrow> time_difference" where
  "calculateTimeDifference startTime endTime =
     (let diffMs = endTime - startTime;
          diffMins = diffMs div 60000;
          hours = diffMins div 60;
          minutes = js_rem diffMins 60
      in \<lparr>hours = hours, minutes = minutes, totalMinutes = diffMins\<rparr>)"

subsection \<open>isLate\<close>

definition isLate :: "string \<Rightarrow> string \<Rightarrow> int \<Rightarrow> bool" where
  "isLate actualTime scheduledTime threshold =
     (let actual = map Number (split_on (CHR '':'') actualTime);
          actualHour = element actual 0;
          actualMin = element actual 1;
          sched = map Number (split_on (CHR '':'') scheduledTime);
          schedHour = element sched 0;
          schedMin = element sched 1;
          actualMins = num_add (num_mul actualHour (Some 60)) actualMin;
          schedMins = num_add (num_mul schedHour (Some 60)) schedMin
      in num_gt actualMins (num_add schedMins (Some threshold)))"


section \<open>Configuration (js/config.js)\<close>

record work_schedule =
  startTime :: string
  endTime :: string
  lateThreshold :: int
  earlyLeaveThreshold :: int

definition CONFIG_WORK_SCHEDULE :: work_schedule where
  "CONFIG_WORK_SCHEDULE =
     \<lparr>startTime = ''09:00'', endTime = ''17:00'', lateThreshold = 15,
      earlyLeaveThreshold = 30\<rparr>"

definition ERROR_outsideGeofence :: string where
  "ERROR_outsideGeofence =
     ''You are outside the office area. Please move closer to mark attendance.''"

definition ERROR_notCheckedIn :: string where
  "ERROR_notCheckedIn = ''You must check in before checking out.''"

definition SUCCESS_checkinSuccess :: string where
  "SUCCESS_checkinSuccess = ''Checked in successfully!''"

definition SUCCESS_checkoutSuccess :: string where
  "SUCCESS_checkoutSuccess = ''Checked out successfully!''"

section \<open>Attendance records\<close>

record position =
  latitude :: real
  longitude :: real
  accuracy :: real

text \<open>The status strings \<open>'present'\<close>, \<open>'late'\<close> and \<open>'early_leave'\<close>.\<close>

datatype status = Present | Late | Early_leave

text \<open>
  The object built by \<open>handleTimeIn\<close>, with the fields that \<open>handleTimeOut\<close> adds; a
  field that is \<open>null\<close> or not there yet is \<open>None\<close>. The ISO strings \<open>dateTime\<close>,
  \<open>timeIn\<close> and \<open>timeOut\<close> are the instants they denote.
\<close>

record attendance_record =
  rec_id :: string
  userId :: string
  userName :: string
  date :: string
  dateTime :: int
  timeIn :: "int option"
  timeInFormatted :: string
  timeOut :: "int option"
  location :: position
  photo :: "string option"
  faceVerified :: bool
  status :: status
  synced :: bool
  timeOutFormatted :: "string option"
  checkoutLocation :: "position option"
  checkoutPhoto :: "string option"
  workHours :: "int option"
  workMinutes :: "int option"
  totalWorkMinutes :: "int option"
  earlyLeave :: "bool option"

text \<open>An \<open>updates\<close> object: for each field, \<open>None\<close> when the object does not name the
  field and \<open>Some v\<close> when it gives it the value \<open>v\<close>.\<close>

record attendance_updates =
  upd_rec_id :: "string option"
  upd_userId :: "string option"
  upd_userName :: "string option"
  upd_date :: "string option"
  upd_dateTime :: "int option"
  upd_timeIn :: "int option option"
  upd_timeInFormatted :: "string option"
  upd_timeOut :: "int option option"
  upd_location :: "position option"
  upd_photo :: "string option option"
  upd_faceVerified :: "bool option"
  upd_status :: "status option"
  upd_synced :: "bool option"
  upd_timeOutFormatted :: "string option option"
  upd_checkoutLocation :: "position option option"
  upd_checkoutPhoto :: "string option option"
  upd_workHours :: "int option option"
  upd_workMinutes :: "int option option"
  upd_totalWorkMinutes :: "int option option"
  upd_earlyLeave :: "bool option option"

definition no_updates :: attendance_updates where
  "no_updates =
     \<lparr>upd_rec_id = None, upd_userId = None, upd_userName = None, upd_date = None,
      upd_dateTime = None, upd_timeIn = None, upd_timeInFormatted = None, upd_timeOut = None,
      upd_location = None, upd_photo = None, upd_faceVerified = None, upd_status = None,
      upd_synced = None, upd_timeOutFormatted = None, upd_checkoutLocation = None,
      upd_checkoutPhoto = None, upd_workHours = None, upd_workMinutes = None,
      upd_totalWorkMinutes = None, upd_earlyLeave = None\<rparr>"

fun pick :: "'a option \<Rightarrow> 'a \<Rightarrow> 'a" where
  "pick None old = old"
| "pick (Some v) old = v"

text \<open>The object spread \<open>{ ...r, ...u }\<close>.\<close>

definition spread :: "attendance_record \<Rightarrow> attendance_updates \<Rightarrow> attendance_record" where
  "spread r u =
     \<lparr>rec_id = pick (upd_rec_id u) (rec_id r),
      userId = pick (upd_userId u) (userId r),
      userName = pick (upd_userName u) (userName r),
      date = pick (upd_date u) (date r),
      dateTime = pick (upd_dateTime u) (dateTime r),
      timeIn = pick (upd_timeIn u) (timeIn r),
      timeInFormatted = pick (upd_timeInFormatted u) (timeInFormatted r),
      timeOut = pick (upd_timeOut u) (timeOut r),
      location = pick (upd_location u) (location r),
      photo = pick (upd_photo u) (photo r),
      faceVerified = pick (upd_faceVerified u) (faceVerified r),
      status = pick (upd_status u) (status r),
      synced = pick (upd_synced u) (synced r),
      timeOutFormatted = pick (upd_timeOutFormatted u) (timeOutFormatted r),
      checkoutLocation = pick (upd_checkoutLocation u) (checkoutLocation r),
      checkoutPhoto = pick (upd_checkoutPhoto u) (checkoutPhoto r),
      workHours = pick (upd_workHours u) (workHours r),
      workMinutes = pick (upd_workMinutes u) (workMinutes r),
      totalWorkMinutes = pick (upd_totalWorkMinutes u) (totalWorkMinutes r),
      earlyLeave = pick (upd_earlyLeave u) (earlyLeave r)\<rparr>"

section \<open>Application state\<close>

text \<open>
  \<open>attendance\<close> is the array stored under the attendance key of \<open>localStorage\<close> (an absent
  key reads as the empty array); \<open>storageAvailable\<close> is what \<open>isLocalStorageAvailable\<close>
  finds and \<open>quotaExceeded\<close> whether a write raises the quota error. \<open>todayRecord\<close> and
  \<open>offlineQueue\<close> are the fields of the \<open>Attendance\<close> object. \<open>toasts\<close> logs the calls of
  \<open>Utils.showToast\<close> made by the functions below, as (message, type).
\<close>

record app_state =
  attendance :: "attendance_record list"
  storageAvailable :: bool
  quotaExceeded :: bool
  todayRecord :: "attendance_record option"
  offlineQueue :: "attendance_record list"
  toasts :: "(string \<times> string) list"

definition showToast :: "app_state \<Rightarrow> string \<Rightarrow> string \<Rightarrow> app_state" where
  "showToast s message type = s\<lparr>toasts := toasts s @ [(message, type)]\<rparr>"

section \<open>Record store (js/utils.js, \<open>Storage\<close>)\<close>

definition setItem :: "app_state \<Rightarrow> attendance_record list \<Rightarrow> bool \<times> app_state" where
  "setItem s v =
     (if \<not> storageAvailable s then (False, s)
      else if quotaExceeded s
        then (False, showToast s ''Storage quota exceeded. Please clear some data.'' ''error'')
      else (True, s\<lparr>attendance := v\<rparr>))"

definition getAttendanceRecords :: "app_state \<Rightarrow> attendance_record list" where
  "getAttendanceRecords s = (if \<not> storageAvailable s then [] else attendance s)"

text \<open>\<open>saveAttendanceRecord\<close> gives a record without id a generated one, in the caller's
  object too, so the record is returned with the result.\<close>

definition saveAttendanceRecord ::
  "app_state \<Rightarrow> string \<Rightarrow> attendance_record \<Rightarrow> (bool \<times> app_state) \<times> attendance_record" where
  "saveAttendanceRecord s generatedId record0 =
     (let records = getAttendanceRecords s;
          record = (if rec_id record0 = [] then record0\<lparr>rec_id := generatedId\<rparr> else record0)
      in (setItem s (records @ [record]), record))"

definition getTodayAttendance :: "app_state \<Rightarrow> int \<Rightarrow> attendance_record option" where
  "getTodayAttendance s now =
     (let records = getAttendanceRecords s;
          today = formatDate now;
          todayRecords = filter (\<lambda>record. date record = today) records
      in if length todayRecords = 0 then None
         else Some (todayRecords ! (length todayRecords - 1)))"

fun findIndex :: "('a \<Rightarrow> bool) \<Rightarrow> 'a list \<Rightarrow> nat option" where
  "findIndex P [] = None"
| "findIndex P (x # xs) = (if P x then Some 0 else map_option Suc (findIndex P xs))"

definition updateAttendanceRecord ::
  "app_state \<Rightarrow> string \<Rightarrow> attendance_updates \<Rightarrow> bool \<times> app_state" where
  "updateAttendanceRecord s ident updates =
     (let records = getAttendanceRecords s
      in case findIndex (\<lambda>record. rec_id record = ident) records of
           None \<Rightarrow> (False, s)
         | Some index \<Rightarrow> setItem s (records[index := spread (records ! index) updates]))"

record month_range =
  range_start :: int
  range_end :: int
  startStr :: string
  endStr :: string

definition getMonthRange :: "int \<Rightarrow> int \<Rightarrow> month_range" where
  "getMonthRange year month =
     (let startDate = newDate year (month - 1) 1;
          endDate = newDate year month 0
      in \<lparr>range_start = startDate, range_end = endDate,
          startStr = formatDate startDate, endStr = formatDate endDate\<rparr>)"

definition getMonthlyAttendance :: "app_state \<Rightarrow> int \<Rightarrow> int \<Rightarrow> attendance_record list" where
  "getMonthlyAttendance s year month =
     (let records = getAttendanceRecords s;
          monthRange = getMonthRange year month
      in filter (\<lambda>record. let recordDate = dateTime record
                           in recordDate \<ge> range_start monthRange \<and>
                              recordDate \<le> range_end monthRange) records)"


section \<open>Attendance module (\<open>Attendance\<close>)\<close>

text \<open>
  What the handlers read from their collaborators: the session (\<open>Auth\<close>), the result of
  \<open>Location.validateGeofence()\<close> and the position it stored, the feature flag and the
  results of the camera calls, the clock, \<open>Utils.generateId()\<close> and \<open>navigator.onLine\<close>.
  The handlers are \<open>async\<close>; they are modelled run to completion, in program order.
\<close>

record face_verification =
  success :: bool
  requiresRegistration :: bool
  message :: string

record environment =
  authenticated :: bool
  currentUserId :: string
  currentUserName :: string
  geofenceValid :: bool
  currentPosition :: position
  faceRecognition :: bool
  cameraStarted :: bool
  faceResult :: face_verification
  registered :: bool
  retryResult :: face_verification
  capturedPhoto :: "string option"
  now :: int
  generatedId :: string
  onLine :: bool

text \<open>The handlers return nothing; the reason a handler gave up is made a value here, next to
  the toast it shows.\<close>

datatype error =
  AuthRequired
  | OutsideGeofence
  | FaceRegistrationRequired
  | FaceNotMatched
  | NotCheckedIn
  | SaveFailed
  | UpdateFailed

definition validateLocation :: "environment \<Rightarrow> app_state \<Rightarrow> bool \<times> app_state" where
  "validateLocation env s =
     (let isValid = geofenceValid env
      in if \<not> isValid then (False, showToast s ERROR_outsideGeofence ''error'')
         else (True, s))"

definition isEarlyLeave :: "work_schedule \<Rightarrow> string \<Rightarrow> bool" where
  "isEarlyLeave cfg timeString =
     (let parts = map Number (split_on (CHR '':'') timeString);
          hours = element parts 0;
          minutes = element parts 1;
          endParts = map Number (split_on (CHR '':'') (endTime cfg));
          endHours = element endParts 0;
          endMinutes = element endParts 1;
          totalMinutes = num_add (num_mul hours (Some 60)) minutes;
          endTotalMinutes = num_add (num_mul endHours (Some 60)) endMinutes
      in num_lt totalMinutes (num_sub endTotalMinutes (Some (earlyLeaveThreshold cfg))))"

definition addToOfflineQueue :: "app_state \<Rightarrow> attendance_record \<Rightarrow> app_state" where
  "addToOfflineQueue s record =
     showToast (s\<lparr>offlineQueue := offlineQueue s @ [record]\<rparr>)
       ''Attendance saved offline. Will sync when online.'' ''info''"

text \<open>
  The body of the \<open>try\<close> block of \<open>syncAttendance\<close>: it logs and calls the store, whose
  result it drops. On the store modelled here none of it raises, so the body always ends
  normally (\<open>Inr\<close>); the \<open>catch\<close> branch of \<open>syncAttendance\<close> is kept as the source has it.
\<close>

definition syncAttendance_try :: "app_state \<Rightarrow> attendance_record \<Rightarrow> error + app_state" where
  "syncAttendance_try s record =
     Inr (snd (updateAttendanceRecord s (rec_id record) (no_updates\<lparr>upd_synced := Some True\<rparr>)))"

definition syncAttendance :: "app_state \<Rightarrow> attendance_record \<Rightarrow> app_state" where
  "syncAttendance s record =
     (case syncAttendance_try s record of
        Inr s' \<Rightarrow> s'
      | Inl e \<Rightarrow> addToOfflineQueue s record)"

text \<open>The face verification steps of \<open>handleTimeIn\<close>: either the handler gives up, or it goes
  on with \<open>faceVerified\<close> and \<open>photoData\<close>.\<close>

definition faceSteps ::
  "environment \<Rightarrow> app_state \<Rightarrow> (error \<times> app_state) + (bool \<times> string option)" where
  "faceSteps env s =
     (if faceRecognition env \<and> cameraStarted env then
        (if \<not> success (faceResult env) then
           (if requiresRegistration (faceResult env) then
              (if \<not> registered env
                 then Inl (FaceRegistrationRequired,
                           showToast s ''Face registration required for attendance'' ''error'')
               else if \<not> success (retryResult env)
                 then Inl (FaceNotMatched, showToast s (message (retryResult env)) ''error'')
               else Inr (True, capturedPhoto env))
            else Inl (FaceNotMatched, showToast s (message (faceResult env)) ''error''))
         else Inr (True, capturedPhoto env))
      else Inr (False, None))"

definition handleTimeIn ::
  "work_schedule \<Rightarrow> environment \<Rightarrow> app_state \<Rightarrow> (error + unit) \<times> app_state" where
  "handleTimeIn cfg env s =
     (if \<not> authenticated env then (Inl AuthRequired, showToast s ''Please login first'' ''error'')
      else case validateLocation env s of
        (False, s1) \<Rightarrow> (Inl OutsideGeofence, s1)
      | (True, s1) \<Rightarrow>
         (case faceSteps env s1 of
            Inl (e, s2) \<Rightarrow> (Inl e, s2)
          | Inr (faceVerified', photoData) \<Rightarrow>
             (let position = currentPosition env;
                  timeString = formatTime (now env);
                  isLate' = isLate timeString (startTime cfg) (lateThreshold cfg);
                  attendanceRecord =
                    \<lparr>rec_id = generatedId env,
                     userId = currentUserId env,
                     userName = currentUserName env,
                     date = formatDate (now env),
                     dateTime = now env,
                     timeIn = Some (now env),
                     timeInFormatted = timeString,
                     timeOut = None,
                     location = \<lparr>latitude = latitude position, longitude = longitude position,
                                 accuracy = accuracy position\<rparr>,
                     photo = photoData,
                     faceVerified = faceVerified',
                     status = (if isLate' then Late else Present),
                     synced = False,
                     timeOutFormatted = None, checkoutLocation = None, checkoutPhoto = None,
                     workHours = None, workMinutes = None, totalWorkMinutes = None,
                     earlyLeave = None\<rparr>
              in case saveAttendanceRecord s1 (generatedId env) attendanceRecord of
                   ((True, s2), record) \<Rightarrow>
                     (let s3 = showToast (s2\<lparr>todayRecord := Some record\<rparr>)
                                 SUCCESS_checkinSuccess ''success''
                      in (Inr (), if onLine env then syncAttendance s3 record
                                  else addToOfflineQueue s3 record))
                 | ((False, s2), record) \<Rightarrow>
                     (Inl SaveFailed,
                      showToast s2 ''Failed to save attendance. Please try again.'' ''error''))))"

definition handleTimeOut ::
  "work_schedule \<Rightarrow> environment \<Rightarrow> app_state \<Rightarrow> (error + unit) \<times> app_state" where
  "handleTimeOut cfg env s =
     (if \<not> authenticated env then (Inl AuthRequired, showToast s ''Please login first'' ''error'')
      else case todayRecord s of
        None \<Rightarrow> (Inl NotCheckedIn, showToast s ERROR_notCheckedIn ''error'')
      | Some today \<Rightarrow>
         (case timeIn today of
            None \<Rightarrow> (Inl NotCheckedIn, showToast s ERROR_notCheckedIn ''error'')
          | Some timeIn' \<Rightarrow>
             (case validateLocation env s of
                (False, s1) \<Rightarrow> (Inl OutsideGeofence, s1)
              | (True, s1) \<Rightarrow>
                 (let position = currentPosition env;
                      photoData = (if faceRecognition env \<and> cameraStarted env
                                   then capturedPhoto env else None);
                      timeString = formatTime (now env);
                      workDuration = calculateTimeDifference timeIn' (now env);
                      isEarlyLeave' = isEarlyLeave cfg timeString;
                      updates0 = no_updates
                        \<lparr>upd_timeOut := Some (Some (now env)),
                         upd_timeOutFormatted := Some (Some timeString),
                         upd_checkoutLocation :=
                           Some (Some \<lparr>latitude = latitude position,
                                       longitude = longitude position,
                                       accuracy = accuracy position\<rparr>),
                         upd_checkoutPhoto := Some photoData,
                         upd_workHours := Some (Some (hours workDuration)),
                         upd_workMinutes := Some (Some (minutes workDuration)),
                         upd_totalWorkMinutes := Some (Some (totalMinutes workDuration)),
                         upd_earlyLeave := Some (Some isEarlyLeave'),
                         upd_synced := Some False\<rparr>;
                      updates = (if isEarlyLeave' \<and> status today = Present
                                 then updates0\<lparr>upd_status := Some Early_leave\<rparr>
                                 else updates0)
                  in case updateAttendanceRecord s1 (rec_id today) updates of
                       (True, s2) \<Rightarrow>
                         (let today' = spread today updates;
                              s3 = showToast (s2\<lparr>todayRecord := Some today'\<rparr>)
                                     SUCCESS_checkoutSuccess ''success''
                          in (Inr (), if onLine env then syncAttendance s3 today'
                                      else addToOfflineQueue s3 today'))
                     | (False, s2) \<Rightarrow>
                         (Inl UpdateFailed,
                          showToast s2 ''Failed to update attendance. Please try again.''
                            ''error'')))))"

text \<open>\<open>loadTodayAttendance\<close> (run at start-up and after login) reads the cache from the
  store.\<close>

definition loadTodayAttendance :: "app_state \<Rightarrow> int \<Rightarrow> app_state" where
  "loadTodayAttendance s now' = s\<lparr>todayRecord := getTodayAttendance s now'\<rparr>"

text \<open>\<open>syncOfflineQueue\<close>: \<open>syncAttendance\<close> handles its own failure and never raises, so the
  \<open>catch\<close> of the loop body has nothing to catch.\<close>

definition syncOfflineQueue :: "app_state \<Rightarrow> app_state" where
  "syncOfflineQueue s =
     (if length (offlineQueue s) = 0 then s
      else (let queue = offlineQueue s;
                s1 = s\<lparr>offlineQueue := []\<rparr>;
                s2 = foldl syncAttendance s1 queue
            in if length (offlineQueue s2) = 0
               then showToast s2 ''All offline records synced successfully'' ''success''
               else s2))"


section \<open>Statistics\<close>

subsection \<open>Double-precision arithmetic\<close>

text \<open>
  The attendance rate is computed with a division and a multiplication of JavaScript
  numbers, each of which rounds its exact result to the nearest double (53 significant
  bits, ties to the even significand). Doubles are modelled by the rationals they denote;
  \<open>to_double\<close> is that rounding for magnitudes in the normal range, the only ones a ratio
  of two counts times 100 can have.
\<close>

fun bit_length :: "nat \<Rightarrow> nat" where
  "bit_length n = (if n = 0 then 0 else Suc (bit_length (n div 2)))"

declare bit_length.simps [simp del]

text \<open>The exponent \<open>e\<close> with \<open>2 ^ e \<le> a < 2 ^ (e + 1)\<close>, for \<open>a > 0\<close>.\<close>

definition binary_exponent :: "rat \<Rightarrow> int" where
  "binary_exponent a =
     (if a \<ge> 1 then int (bit_length (nat \<lfloor>a\<rfloor>)) - 1
      else - int (bit_length (nat (\<lceil>1 / a\<rceil> - 1))))"

definition two_to :: "int \<Rightarrow> rat" where
  "two_to e = (if e \<ge> 0 then 2 ^ nat e else 1 / 2 ^ nat (- e))"

definition round_half_even :: "rat \<Rightarrow> int" where
  "round_half_even q =
     (let f = \<lfloor>q\<rfloor>; r = q - of_int f
      in if r < 1 / 2 then f else if r > 1 / 2 then f + 1
         else if even f then f else f + 1)"

definition to_double :: "rat \<Rightarrow> rat" where
  "to_double x =
     (if x = 0 then 0
      else (let a = \<bar>x\<bar>;
                ulp = two_to (binary_exponent a - 52)
            in sgn x * of_int (round_half_even (a / ulp)) * ulp))"

definition js_divide :: "rat \<Rightarrow> rat \<Rightarrow> rat" where
  "js_divide a b = to_double (a / b)"

definition js_times :: "rat \<Rightarrow> rat \<Rightarrow> rat" where
  "js_times a b = to_double (a * b)"

text \<open>\<open>Math.round\<close>: the nearest integer, a tie going up.\<close>

definition Math_round :: "rat \<Rightarrow> int" where
  "Math_round x = \<lfloor>x + 1 / 2\<rfloor>"

text \<open>\<open>totalDays > 0 ? Math.round((presentDays / totalDays) * 100) : 0\<close>, the expression
  of both summaries.\<close>

definition attendanceRate :: "nat \<Rightarrow> nat \<Rightarrow> int" where
  "attendanceRate presentDays totalDays =
     (if totalDays > 0
      then Math_round (js_times (js_divide (of_nat presentDays) (of_nat totalDays)) 100)
      else 0)"

subsection \<open>\<open>Attendance.getStatistics\<close>\<close>

text \<open>\<open>[...new Set(xs)]\<close>: the elements of \<open>xs\<close> in the order of their first occurrence.\<close>

definition unique :: "'a list \<Rightarrow> 'a list" where
  "unique xs = foldl (\<lambda>seen x. if x \<in> set seen then seen else seen @ [x]) [] xs"

text \<open>The loop \<open>if (record.totalWorkMinutes) totalWorkMinutes += record.totalWorkMinutes\<close>:
  an absent, \<open>null\<close> or zero duration is skipped.\<close>

definition addWorkMinutes :: "int \<Rightarrow> attendance_record \<Rightarrow> int" where
  "addWorkMinutes acc record =
     (case totalWorkMinutes record of
        None \<Rightarrow> acc
      | Some n \<Rightarrow> if n \<noteq> 0 then acc + n else acc)"

definition monthlyRecords :: "app_state \<Rightarrow> int \<Rightarrow> attendance_record list" where
  "monthlyRecords s now' =
     (let records = getAttendanceRecords s;
          currentMonth = getMonth now' + 1;
          currentYear = getFullYear now'
      in filter (\<lambda>record. let recordDate = dateTime record
                           in getMonth recordDate + 1 = currentMonth \<and>
                              getFullYear recordDate = currentYear) records)"

definition latestRecordsByDate :: "attendance_record list \<Rightarrow> attendance_record list" where
  "latestRecordsByDate monthly =
     map (\<lambda>d. let dailyRecords = filter (\<lambda>r. date r = d) monthly
               in dailyRecords ! (length dailyRecords - 1))
         (unique (map date monthly))"

text \<open>The object \<open>getStatistics\<close> returns; its field \<open>totalWorkMinutes\<close> is
  \<open>stats_totalWorkMinutes\<close> here.\<close>

record statistics =
  stats_totalDays :: nat
  stats_presentDays :: nat
  stats_lateDays :: nat
  stats_earlyLeaveDays :: nat
  stats_totalWorkHours :: int
  stats_totalWorkMinutes :: int
  stats_attendanceRate :: int

definition getStatistics :: "app_state \<Rightarrow> int \<Rightarrow> statistics" where
  "getStatistics s now' =
     (let monthly = monthlyRecords s now';
          uniqueDates = unique (map date monthly);
          totalDays = length uniqueDates;
          latest = latestRecordsByDate monthly;
          presentDays = length (filter (\<lambda>r. status r = Present) latest);
          lateDays = length (filter (\<lambda>r. status r = Late) latest);
          earlyLeaveDays = length (filter (\<lambda>r. earlyLeave r = Some True) latest);
          totalWork = foldl addWorkMinutes 0 latest;
          totalWorkHours' = totalWork div 60;
          remainingMinutes = js_rem totalWork 60
      in \<lparr>stats_totalDays = totalDays,
          stats_presentDays = presentDays,
          stats_lateDays = lateDays,
          stats_earlyLeaveDays = earlyLeaveDays,
          stats_totalWorkHours = totalWorkHours',
          stats_totalWorkMinutes = remainingMinutes,
          stats_attendanceRate = attendanceRate presentDays totalDays\<rparr>)"

subsection \<open>\<open>Reports.getSummaryStats\<close>\<close>

text \<open>The average work time fields (\<open>avgWorkHours\<close>, \<open>avgWorkMins\<close>) are left out.\<close>

record summary_stats =
  summary_totalDays :: nat
  summary_presentDays :: nat
  summary_lateDays :: nat
  summary_earlyLeaveDays :: nat
  summary_totalWorkHours :: int
  summary_attendanceRate :: int

definition getSummaryStats :: "app_state \<Rightarrow> int \<Rightarrow> int \<Rightarrow> summary_stats" where
  "getSummaryStats s year month =
     (let records = getMonthlyAttendance s year month;
          totalDays = length records;
          presentDays = length (filter (\<lambda>r. status r = Present) records);
          lateDays = length (filter (\<lambda>r. status r = Late) records);
          earlyLeaveDays = length (filter (\<lambda>r. earlyLeave r = Some True) records);
          totalWork = foldl addWorkMinutes 0 records
      in \<lparr>summary_totalDays = totalDays,
          summary_presentDays = presentDays,
          summary_lateDays = lateDays,
          summary_earlyLeaveDays = earlyLeaveDays,
          summary_totalWorkHours = totalWork div 60,
          summary_attendanceRate = attendanceRate presentDays totalDays\<rparr>)"

section \<open>Geofence (js/utils.js)\<close>

text \<open>
  The coordinates and the radius are real numbers here: \<open>Math.sin\<close>, \<open>Math.cos\<close>,
  \<open>Math.sqrt\<close> and \<open>Math.atan2\<close> are the exact functions, without the rounding of
  double-precision arithmetic.
\<close>

definition atan2 :: "real \<Rightarrow> real \<Rightarrow> real" where
  "atan2 y x =
     (if x > 0 then arctan (y / x)
      else if x < 0 then (if y \<ge> 0 then arctan (y / x) + pi else arctan (y / x) - pi)
      else if y > 0 then pi / 2
      else if y < 0 then - pi / 2
      else 0)"

definition haversine_a :: "real \<Rightarrow> real \<Rightarrow> real \<Rightarrow> real \<Rightarrow> real" where
  "haversine_a lat1 lon1 lat2 lon2 =
     (let phi1 = lat1 * pi / 180;
          phi2 = lat2 * pi / 180;
          dphi = (lat2 - lat1) * pi / 180;
          dlambda = (lon2 - lon1) * pi / 180
      in sin (dphi / 2) * sin (dphi / 2) +
         cos phi1 * cos phi2 * sin (dlambda / 2) * sin (dlambda / 2))"

definition calculateDistance :: "real \<Rightarrow> real \<Rightarrow> real \<Rightarrow> real \<Rightarrow> real" where
  "calculateDistance lat1 lon1 lat2 lon2 =
     (let R = 6371000;
          a = haversine_a lat1 lon1 lat2 lon2;
          c = 2 * atan2 (sqrt a) (sqrt (1 - a))
      in R * c)"

definition isWithinGeofence :: "real \<Rightarrow> real \<Rightarrow> real \<Rightarrow> real \<Rightarrow> real \<Rightarrow> bool" where
  "isWithinGeofence userLat userLon officeLat officeLon radius =
     (let distance = calculateDistance userLat userLon officeLat officeLon
      in distance \<le> radius)"


section \<open>Sample data\<close>

definition sample_position :: position where
  "sample_position = \<lparr>latitude = 0, longitude = 0, accuracy = 0\<rparr>"

text \<open>A record as \<open>handleTimeIn\<close> builds it, before any time-out.\<close>

definition sample_record :: "string \<Rightarrow> string \<Rightarrow> int \<Rightarrow> status \<Rightarrow> attendance_record" where
  "sample_record ident d t st =
     \<lparr>rec_id = ident, userId = ''u1'', userName = ''Ann'', date = d, dateTime = t,
      timeIn = Some t, timeInFormatted = formatTime t, timeOut = None,
      location = sample_position, photo = None, faceVerified = False, status = st,
      synced = False, timeOutFormatted = None, checkoutLocation = None, checkoutPhoto = None,
      workHours = None, workMinutes = None, totalWorkMinutes = None, earlyLeave = None\<rparr>"

definition sample_state :: "attendance_record list \<Rightarrow> app_state" where
  "sample_state rs =
     \<lparr>attendance = rs, storageAvailable = True, quotaExceeded = False, todayRecord = None,
      offlineQueue = [], toasts = []\<rparr>"

definition sample_environment :: "int \<Rightarrow> environment" where
  "sample_environment t =
     \<lparr>authenticated = True, currentUserId = ''u1'', currentUserName = ''Ann'',
      geofenceValid = True, currentPosition = sample_position, faceRecognition = False,
      cameraStarted = False,
      faceResult = \<lparr>success = True, requiresRegistration = False, message = []\<rparr>,
      registered = False,
      retryResult = \<lparr>success = True, requiresRegistration = False, message = []\<rparr>,
      capturedPhoto = None, now = t, generatedId = ''id1'', onLine = True\<rparr>"

text \<open>The instant of day \<open>d\<close> of June 2024 at \<open>h:m\<close>.\<close>

definition june2024 :: "int \<Rightarrow> int \<Rightarrow> int \<Rightarrow> int" where
  "june2024 d h m = newDate 2024 5 d + h * 3600000 + m * 60000"

text \<open>The notation \<open>'HH:mm'\<close> of the configured schedule times, for the hour \<open>h\<close> and the
  minute \<open>m\<close>.\<close>

definition hhmm :: "nat \<Rightarrow> nat \<Rightarrow> string" where
  "hhmm h m =
     padStart 2 (CHR ''0'') (String_int (int h)) @ '':'' @
     padStart 2 (CHR ''0'') (String_int (int m))"

text \<open>The \<open>updates\<close> object that \<open>handleTimeOut\<close> builds for today's record \<open>today\<close>, checked
  in at \<open>timeIn'\<close>; it restates the \<open>let\<close> block of \<open>handleTimeOut\<close>, for the statements
  below.\<close>

definition timeOutUpdates ::
  "work_schedule \<Rightarrow> environment \<Rightarrow> attendance_record \<Rightarrow> int \<Rightarrow> attendance_updates" where
  "timeOutUpdates cfg env today timeIn' =
     (let position = currentPosition env;
          photoData = (if faceRecognition env \<and> cameraStarted env
                       then capturedPhoto env else None);
          timeString = formatTime (now env);
          workDuration = calculateTimeDifference timeIn' (now env);
          isEarlyLeave' = isEarlyLeave cfg timeString;
          updates0 = no_updates
            \<lparr>upd_timeOut := Some (Some (now env)),
             upd_timeOutFormatted := Some (Some timeString),
             upd_checkoutLocation :=
               Some (Some \<lparr>latitude = latitude position,
                           longitude = longitude position,
                           accuracy = accuracy position\<rparr>),
             upd_checkoutPhoto := Some photoData,
             upd_workHours := Some (Some (hours workDuration)),
             upd_workMinutes := Some (Some (minutes workDuration)),
             upd_totalWorkMinutes := Some (Some (totalMinutes workDuration)),
             upd_earlyLeave := Some (Some isEarlyLeave'),
             upd_synced := Some False\<rparr>
      in if isEarlyLeave' \<and> status today = Present
         then updates0\<lparr>upd_status := Some Early_leave\<rparr>
         else updates0)"

text \<open>The state after a time-in at 09:00 on 3 June 2024 that produced a record of status
  \<open>st\<close>: the record is stored and cached as today's record.\<close>

definition checked_in_state :: "status \<Rightarrow> app_state" where
  "checked_in_state st =
     (sample_state [sample_record ''id1'' ''03/06/2024'' (june2024 3 9 0) st])
       \<lparr>todayRecord := Some (sample_record ''id1'' ''03/06/2024'' (june2024 3 9 0) st)\<rparr>"

text \<open>The state reached from the empty store by a time-in at 09:00 and a time-out at 12:00
  on 3 June 2024.\<close>

definition checked_out_state :: app_state where
  "checked_out_state =
     snd (handleTimeOut CONFIG_WORK_SCHEDULE (sample_environment (june2024 3 12 0))
       (snd (handleTimeIn CONFIG_WORK_SCHEDULE (sample_environment (june2024 3 9 0))
          (sample_state []))))"

text \<open>
  The great-circle distance of two points given in degrees, by the haversine formula on a
  sphere of radius 6371000 metres, as the specification names it: twice the radius times the
  arc sine of the square root of \<open>hav \<Delta>\<phi> + cos \<phi>1 cos \<phi>2 hav \<Delta>\<lambda>\<close>. It is written
  independently of \<open>calculateDistance\<close>, to be compared with it.
\<close>

definition radians :: "real \<Rightarrow> real" where
  "radians deg = deg * pi / 180"

definition hav :: "real \<Rightarrow> real" where
  "hav \<theta> = (sin (\<theta> / 2))\<^sup>2"

definition haversine_distance :: "real \<Rightarrow> real \<Rightarrow> real \<Rightarrow> real \<Rightarrow> real" where
  "haversine_distance lat1 lon1 lat2 lon2 =
     2 * 6371000 *
       arcsin (sqrt (hav (radians lat2 - radians lat1) +
                     cos (radians lat1) * cos (radians lat2) *
                       hav (radians lon2 - radians lon1)))"

text \<open>A record's own work duration in minutes, none counting as 0.\<close>

definition ownWorkMinutes :: "attendance_record \<Rightarrow> int" where
  "ownWorkMinutes r = (case totalWorkMinutes r of None \<Rightarrow> 0 | Some n \<Rightarrow> n)"

text \<open>The last record of the date \<open>d\<close> among \<open>rs\<close>, for a date that occurs in \<open>rs\<close>.\<close>

definition lastOfDate :: "attendance_record list \<Rightarrow> string \<Rightarrow> attendance_record" where
  "lastOfDate rs d = last (filter (\<lambda>r. date r = d) rs)"

text \<open>The record \<open>r\<close>, checked in at \<open>t_in\<close>, after a time-out at \<open>t_out\<close>.\<close>

definition timed_out :: "attendance_record \<Rightarrow> int \<Rightarrow> int \<Rightarrow> attendance_record" where
  "timed_out r t_in t_out =
     spread r (timeOutUpdates CONFIG_WORK_SCHEDULE (sample_environment t_out) r t_in)"

text \<open>The store after two time-ins on 3 June 2024, at 09:00 (present) and, without a
  time-out in between, at 13:00 (late).\<close>

definition two_cycles_state :: app_state where
  "two_cycles_state =
     sample_state [sample_record ''id1'' ''03/06/2024'' (june2024 3 9 0) Present,
                   sample_record ''id2'' ''03/06/2024'' (june2024 3 13 0) Late]"

text \<open>The store after a time-in at 09:00 and a time-out at 17:00 on 3 June 2024.\<close>

definition worked_day_state :: app_state where
  "worked_day_state =
     sample_state [timed_out (sample_record ''id1'' ''03/06/2024'' (june2024 3 9 0) Present)
                     (june2024 3 9 0) (june2024 3 17 0)]"

text \<open>Two worked days, 3 June 2024 from 09:00 to 17:00 and 4 June 2024 from 09:00 to 11:15.\<close>

definition two_days_state :: app_state where
  "two_days_state =
     sample_state [timed_out (sample_record ''id1'' ''03/06/2024'' (june2024 3 9 0) Present)
                     (june2024 3 9 0) (june2024 3 17 0),
                   timed_out (sample_record ''id2'' ''04/06/2024'' (june2024 4 9 0) Present)
                     (june2024 4 9 0) (june2024 4 11 15)]"

text \<open>Forty records of June 2024, two a day from 1 to 20 June: the first 23 present
  (checked in at 08:00 or 08:30), the other 17 late (checked in at 10:00 or 10:30).\<close>

definition forty_records :: "attendance_record list" where
  "forty_records =
     map (\<lambda>i. let t = june2024 (1 + int (i div 2)) (if i < 23 then 8 else 10)
                          (30 * int (i mod 2))
               in sample_record (String_nat i) (formatDate t) t
                    (if i < 23 then Present else Late))
       [0..<40]"

text \<open>The state after a time-in made off line at 09:00 on 3 June 2024: the record is
  stored, cached as today's record and queued for sync.\<close>

definition offline_checked_in_state :: app_state where
  "offline_checked_in_state =
     (sample_state [sample_record ''id1'' ''03/06/2024'' (june2024 3 9 0) Present])
       \<lparr>todayRecord := Some (sample_record ''id1'' ''03/06/2024'' (june2024 3 9 0) Present),
        offlineQueue := [sample_record ''id1'' ''03/06/2024'' (june2024 3 9 0) Present]\<rparr>"

section \<open>The record store: update\<close>

lemma findIndex_None_iff: "findIndex P xs = None \<longleftrightarrow> (\<forall>x \<in> set xs. \<not> P x)"
  by (induction xs) auto

lemma findIndex_Some:
  "findIndex P xs = Some i \<Longrightarrow> i < length xs \<and> P (xs ! i) \<and> (\<forall>j < i. \<not> P (xs ! j))"
proof (induction xs arbitrary: i)
  case Nil
  then show ?case by simp
next
  case (Cons x xs)
  show ?case
  proof (cases "P x")
    case True
    with Cons.prems show ?thesis by simp
  next
    case False
    with Cons.prems obtain k where k: "findIndex P xs = Some k" "i = Suc k"
      by auto
    from Cons.IH [OF k(1)] False k(2) show ?thesis
      by (auto simp: less_Suc_eq_0_disj)
  qed
qed

lemma setItem_True:
  "setItem s v = (True, s') \<Longrightarrow>
     storageAvailable s \<and> \<not> quotaExceeded s \<and> s' = s\<lparr>attendance := v\<rparr>"
  by (auto simp: setItem_def split: if_splits)

lemma setItem_False: "setItem s v = (False, s') \<Longrightarrow> attendance s' = attendance s"
  by (auto simp: setItem_def showToast_def split: if_splits)

lemma pick_case: "pick u old = (case u of None \<Rightarrow> old | Some v \<Rightarrow> v)"
  by (cases u) simp_all

lemma list_update_distinct_map:
  assumes "distinct (map f xs)" "i < length xs"
  shows "xs[i := g (xs ! i)] = map (\<lambda>x. if f x = f (xs ! i) then g x else x) xs"
proof (rule nth_equalityI)
  show "length (xs[i := g (xs ! i)]) =
      length (map (\<lambda>x. if f x = f (xs ! i) then g x else x) xs)"
    by simp
next
  fix j assume "j < length (xs[i := g (xs ! i)])"
  then have j: "j < length xs" by simp
  show "xs[i := g (xs ! i)] ! j = map (\<lambda>x. if f x = f (xs ! i) then g x else x) xs ! j"
  proof (cases "j = i")
    case True
    with j show ?thesis by simp
  next
    case False
    from assms j False have "f (xs ! j) \<noteq> f (xs ! i)"
      by (metis distinct_conv_nth length_map nth_map)
    with j False show ?thesis by simp
  qed
qed

lemma updateAttendanceRecord_True:
  assumes "updateAttendanceRecord s ident updates = (True, s')"
  shows "\<exists>index < length (attendance s).
           findIndex (\<lambda>record. rec_id record = ident) (attendance s) = Some index \<and>
           storageAvailable s \<and>
           s' = s\<lparr>attendance := (attendance s)[index := spread (attendance s ! index) updates]\<rparr>"
proof -
  let ?rs = "getAttendanceRecords s"
  from assms obtain index
    where idx: "findIndex (\<lambda>record. rec_id record = ident) ?rs = Some index"
      and set: "setItem s (?rs[index := spread (?rs ! index) updates]) = (True, s')"
    by (auto simp: updateAttendanceRecord_def Let_def split: option.splits)
  from setItem_True [OF set] have avail: "storageAvailable s"
    and s': "s' = s\<lparr>attendance := ?rs[index := spread (?rs ! index) updates]\<rparr>"
    by simp_all
  from avail have rs: "?rs = attendance s"
    by (simp add: getAttendanceRecords_def)
  from findIndex_Some [OF idx] rs have "index < length (attendance s)"
    by simp
  with idx s' rs avail show ?thesis
    by auto
qed

text \<open>
  C10. When \<open>updateAttendanceRecord\<close> succeeds, the first record with the given id (the only
  one when ids are distinct) is replaced by the merge of its fields with those of the
  updates: each field takes the value the updates give it and keeps its old value when the
  updates do not name it. Every other record, the length and the order of the collection
  and the rest of the state are unchanged. When no record has the id, the operation
  returns failure and leaves the state as it was.
\<close>

theorem updateAttendanceRecord_merges_one:
  "(updateAttendanceRecord s ident updates = (True, s') \<longrightarrow>
      (\<exists>index < length (attendance s).
         rec_id (attendance s ! index) = ident \<and>
         (\<forall>j < index. rec_id (attendance s ! j) \<noteq> ident) \<and>
         s' = s\<lparr>attendance := (attendance s)[index := spread (attendance s ! index) updates]\<rparr> \<and>
         length (attendance s') = length (attendance s) \<and>
         (\<forall>j < length (attendance s). j \<noteq> index \<longrightarrow> attendance s' ! j = attendance s ! j) \<and>
         (distinct (map rec_id (attendance s)) \<longrightarrow>
            attendance s' =
              map (\<lambda>record. if rec_id record = ident then spread record updates else record)
                (attendance s)) \<and>
         (let old = attendance s ! index; new = attendance s' ! index in
            rec_id new = (case upd_rec_id updates of None \<Rightarrow> rec_id old | Some v \<Rightarrow> v) \<and>
            userId new = (case upd_userId updates of None \<Rightarrow> userId old | Some v \<Rightarrow> v) \<and>
            userName new = (case upd_userName updates of None \<Rightarrow> userName old | Some v \<Rightarrow> v) \<and>
            date new = (case upd_date updates of None \<Rightarrow> date old | Some v \<Rightarrow> v) \<and>
            dateTime new = (case upd_dateTime updates of None \<Rightarrow> dateTime old | Some v \<Rightarrow> v) \<and>
            timeIn new = (case upd_timeIn updates of None \<Rightarrow> timeIn old | Some v \<Rightarrow> v) \<and>
            timeInFormatted new = (case upd_timeInFormatted updates of None \<Rightarrow> timeInFormatted old | Some v \<Rightarrow> v) \<and>
            timeOut new = (case upd_timeOut updates of None \<Rightarrow> timeOut old | Some v \<Rightarrow> v) \<and>
            location new = (case upd_location updates of None \<Rightarrow> location old | Some v \<Rightarrow> v) \<and>
            photo new = (case upd_photo updates of None \<Rightarrow> photo old | Some v \<Rightarrow> v) \<and>
            faceVerified new = (case upd_faceVerified updates of None \<Rightarrow> faceVerified old | Some v \<Rightarrow> v) \<and>
            status new = (case upd_status updates of None \<Rightarrow> status old | Some v \<Rightarrow> v) \<and>
            synced new = (case upd_synced updates of None \<Rightarrow> synced old | Some v \<Rightarrow> v) \<and>
            timeOutFormatted new = (case upd_timeOutFormatted updates of None \<Rightarrow> timeOutFormatted old | Some v \<Rightarrow> v) \<and>
            checkoutLocation new = (case upd_checkoutLocation updates of None \<Rightarrow> checkoutLocation old | Some v \<Rightarrow> v) \<and>
            checkoutPhoto new = (case upd_checkoutPhoto updates of None \<Rightarrow> checkoutPhoto old | Some v \<Rightarrow> v) \<and>
            workHours new = (case upd_workHours updates of None \<Rightarrow> workHours old | Some v \<Rightarrow> v) \<and>
            workMinutes new = (case upd_workMinutes updates of None \<Rightarrow> workMinutes old | Some v \<Rightarrow> v) \<and>
            totalWorkMinutes new = (case upd_totalWorkMinutes updates of None \<Rightarrow> totalWorkMinutes old | Some v \<Rightarrow> v) \<and>
            earlyLeave new = (case upd_earlyLeave updates of None \<Rightarrow> earlyLeave old | Some v \<Rightarrow> v)))) \<and>
   ((\<forall>record \<in> set (getAttendanceRecords s). rec_id record \<noteq> ident) \<longrightarrow>
      updateAttendanceRecord s ident updates = (False, s))"
proof (intro conjI impI)
  assume ok: "updateAttendanceRecord s ident updates = (True, s')"
  from updateAttendanceRecord_True [OF ok] obtain index
    where len: "index < length (attendance s)"
      and idx: "findIndex (\<lambda>record. rec_id record = ident) (attendance s) = Some index"
      and s': "s' = s\<lparr>attendance :=
                 (attendance s)[index := spread (attendance s ! index) updates]\<rparr>"
    by blast
  from findIndex_Some [OF idx]
  have props: "rec_id (attendance s ! index) = ident"
    "\<forall>j < index. rec_id (attendance s ! j) \<noteq> ident"
    by simp_all
  have new: "attendance s' ! index = spread (attendance s ! index) updates"
    using s' len by simp
  have dist: "distinct (map rec_id (attendance s)) \<longrightarrow>
      attendance s' =
        map (\<lambda>record. if rec_id record = ident then spread record updates else record)
          (attendance s)"
  proof
    assume d: "distinct (map rec_id (attendance s))"
    from list_update_distinct_map [OF d len, of "\<lambda>r. spread r updates"] props(1) s'
    show "attendance s' =
        map (\<lambda>record. if rec_id record = ident then spread record updates else record)
          (attendance s)"
      by simp
  qed
  have fields: "(let old = attendance s ! index; new = attendance s' ! index in
            rec_id new = (case upd_rec_id updates of None \<Rightarrow> rec_id old | Some v \<Rightarrow> v) \<and>
            userId new = (case upd_userId updates of None \<Rightarrow> userId old | Some v \<Rightarrow> v) \<and>
            userName new = (case upd_userName updates of None \<Rightarrow> userName old | Some v \<Rightarrow> v) \<and>
            date new = (case upd_date updates of None \<Rightarrow> date old | Some v \<Rightarrow> v) \<and>
            dateTime new = (case upd_dateTime updates of None \<Rightarrow> dateTime old | Some v \<Rightarrow> v) \<and>
            timeIn new = (case upd_timeIn updates of None \<Rightarrow> timeIn old | Some v \<Rightarrow> v) \<and>
            timeInFormatted new = (case upd_timeInFormatted updates of None \<Rightarrow> timeInFormatted old | Some v \<Rightarrow> v) \<and>
            timeOut new = (case upd_timeOut updates of None \<Rightarrow> timeOut old | Some v \<Rightarrow> v) \<and>
            location new = (case upd_location updates of None \<Rightarrow> location old | Some v \<Rightarrow> v) \<and>
            photo new = (case upd_photo updates of None \<Rightarrow> photo old | Some v \<Rightarrow> v) \<and>
            faceVerified new = (case upd_faceVerified updates of None \<Rightarrow> faceVerified old | Some v \<Rightarrow> v) \<and>
            status new = (case upd_status updates of None \<Rightarrow> status old | Some v \<Rightarrow> v) \<and>
            synced new = (case upd_synced updates of None \<Rightarrow> synced old | Some v \<Rightarrow> v) \<and>
            timeOutFormatted new = (case upd_timeOutFormatted updates of None \<Rightarrow> timeOutFormatted old | Some v \<Rightarrow> v) \<and>
            checkoutLocation new = (case upd_checkoutLocation updates of None \<Rightarrow> checkoutLocation old | Some v \<Rightarrow> v) \<and>
            checkoutPhoto new = (case upd_checkoutPhoto updates of None \<Rightarrow> checkoutPhoto old | Some v \<Rightarrow> v) \<and>
            workHours new = (case upd_workHours updates of None \<Rightarrow> workHours old | Some v \<Rightarrow> v) \<and>
            workMinutes new = (case upd_workMinutes updates of None \<Rightarrow> workMinutes old | Some v \<Rightarrow> v) \<and>
            totalWorkMinutes new = (case upd_totalWorkMinutes updates of None \<Rightarrow> totalWorkMinutes old | Some v \<Rightarrow> v) \<and>
            earlyLeave new = (case upd_earlyLeave updates of None \<Rightarrow> earlyLeave old | Some v \<Rightarrow> v))"
    unfolding Let_def new by (simp add: spread_def pick_case)
  have others: "\<forall>j < length (attendance s). j \<noteq> index \<longrightarrow> attendance s' ! j = attendance s ! j"
    using s' by simp
  have length: "length (attendance s') = length (attendance s)"
    using s' by simp
  from len props s' length others dist fields
  show "\<exists>index < length (attendance s).
         rec_id (attendance s ! index) = ident \<and>
         (\<forall>j < index. rec_id (attendance s ! j) \<noteq> ident) \<and>
         s' = s\<lparr>attendance := (attendance s)[index := spread (attendance s ! index) updates]\<rparr> \<and>
         length (attendance s') = length (attendance s) \<and>
         (\<forall>j < length (attendance s). j \<noteq> index \<longrightarrow> attendance s' ! j = attendance s ! j) \<and>
         (distinct (map rec_id (attendance s)) \<longrightarrow>
            attendance s' =
              map (\<lambda>record. if rec_id record = ident then spread record updates else record)
                (attendance s)) \<and>
         (let old = attendance s ! index; new = attendance s' ! index in
            rec_id new = (case upd_rec_id updates of None \<Rightarrow> rec_id old | Some v \<Rightarrow> v) \<and>
            userId new = (case upd_userId updates of None \<Rightarrow> userId old | Some v \<Rightarrow> v) \<and>
            userName new = (case upd_userName updates of None \<Rightarrow> userName old | Some v \<Rightarrow> v) \<and>
            date new = (case upd_date updates of None \<Rightarrow> date old | Some v \<Rightarrow> v) \<and>
            dateTime new = (case upd_dateTime updates of None \<Rightarrow> dateTime old | Some v \<Rightarrow> v) \<and>
            timeIn new = (case upd_timeIn updates of None \<Rightarrow> timeIn old | Some v \<Rightarrow> v) \<and>
            timeInFormatted new = (case upd_timeInFormatted updates of None \<Rightarrow> timeInFormatted old | Some v \<Rightarrow> v) \<and>
            timeOut new = (case upd_timeOut updates of None \<Rightarrow> timeOut old | Some v \<Rightarrow> v) \<and>
            location new = (case upd_location updates of None \<Rightarrow> location old | Some v \<Rightarrow> v) \<and>
            photo new = (case upd_photo updates of None \<Rightarrow> photo old | Some v \<Rightarrow> v) \<and>
            faceVerified new = (case upd_faceVerified updates of None \<Rightarrow> faceVerified old | Some v \<Rightarrow> v) \<and>
            status new = (case upd_status updates of None \<Rightarrow> status old | Some v \<Rightarrow> v) \<and>
            synced new = (case upd_synced updates of None \<Rightarrow> synced old | Some v \<Rightarrow> v) \<and>
            timeOutFormatted new = (case upd_timeOutFormatted updates of None \<Rightarrow> timeOutFormatted old | Some v \<Rightarrow> v) \<and>
            checkoutLocation new = (case upd_checkoutLocation updates of None \<Rightarrow> checkoutLocation old | Some v \<Rightarrow> v) \<and>
            checkoutPhoto new = (case upd_checkoutPhoto updates of None \<Rightarrow> checkoutPhoto old | Some v \<Rightarrow> v) \<and>
            workHours new = (case upd_workHours updates of None \<Rightarrow> workHours old | Some v \<Rightarrow> v) \<and>
            workMinutes new = (case upd_workMinutes updates of None \<Rightarrow> workMinutes old | Some v \<Rightarrow> v) \<and>
            totalWorkMinutes new = (case upd_totalWorkMinutes updates of None \<Rightarrow> totalWorkMinutes old | Some v \<Rightarrow> v) \<and>
            earlyLeave new = (case upd_earlyLeave updates of None \<Rightarrow> earlyLeave old | Some v \<Rightarrow> v))"
    by blast
next
  assume "\<forall>record \<in> set (getAttendanceRecords s). rec_id record \<noteq> ident"
  then have "findIndex (\<lambda>record. rec_id record = ident) (getAttendanceRecords s) = None"
    by (simp add: findIndex_None_iff)
  then show "updateAttendanceRecord s ident updates = (False, s)"
    by (simp add: updateAttendanceRecord_def)
qed

theorem updateAttendanceRecord_merges_one_witness:
  "updateAttendanceRecord
     (sample_state [sample_record ''a'' ''03/06/2024'' (june2024 3 9 0) Present,
                    sample_record ''b'' ''04/06/2024'' (june2024 4 9 0) Late])
     ''b'' (no_updates\<lparr>upd_synced := Some True\<rparr>) =
   (True,
    sample_state [sample_record ''a'' ''03/06/2024'' (june2024 3 9 0) Present,
                  (sample_record ''b'' ''04/06/2024'' (june2024 4 9 0) Late)\<lparr>synced := True\<rparr>]) \<and>
   length (attendance
     (sample_state [sample_record ''a'' ''03/06/2024'' (june2024 3 9 0) Present,
                  (sample_record ''b'' ''04/06/2024'' (june2024 4 9 0) Late)\<lparr>synced := True\<rparr>])) =
   length (attendance
     (sample_state [sample_record ''a'' ''03/06/2024'' (june2024 3 9 0) Present,
                    sample_record ''b'' ''04/06/2024'' (june2024 4 9 0) Late])) \<and>
   updateAttendanceRecord
     (sample_state [sample_record ''a'' ''03/06/2024'' (june2024 3 9 0) Present,
                    sample_record ''b'' ''04/06/2024'' (june2024 4 9 0) Late])
     ''zz'' (no_updates\<lparr>upd_synced := Some True\<rparr>) =
   (False,
    sample_state [sample_record ''a'' ''03/06/2024'' (june2024 3 9 0) Present,
                  sample_record ''b'' ''04/06/2024'' (june2024 4 9 0) Late])"
  (is "?upd ''b'' = (True, ?S') \<and> length (attendance ?S') = length (attendance ?S) \<and>
       ?upd ''zz'' = (False, ?S)")
proof -
  have ok: "?upd ''b'' = (True, ?S')"
    by code_simp
  have absent: "\<forall>record \<in> set (getAttendanceRecords ?S). rec_id record \<noteq> ''zz''"
    by (simp add: getAttendanceRecords_def sample_state_def sample_record_def)
  from updateAttendanceRecord_merges_one
         [of ?S "''b''" "no_updates\<lparr>upd_synced := Some True\<rparr>" ?S'] ok
  have "length (attendance ?S') = length (attendance ?S)"
    by blast
  moreover
  from updateAttendanceRecord_merges_one
         [of ?S "''zz''" "no_updates\<lparr>upd_synced := Some True\<rparr>" ?S'] absent
  have "?upd ''zz'' = (False, ?S)"
    by blast
  ultimately show ?thesis
    using ok by blast
qed

section \<open>Formatting and parsing clock times\<close>

lemma of_char_digit: "d < 10 \<Longrightarrow> (of_char (digit d) :: nat) = 48 + d"
  by (simp add: digit_def)

lemma is_digit_digit: "d < 10 \<Longrightarrow> is_digit (digit d)"
  by (simp add: is_digit_def of_char_digit)

lemma is_digit_zero: "is_digit (CHR ''0'')"
  by (simp add: is_digit_def)

lemma is_digit_not_colon: "is_digit c \<Longrightarrow> c \<noteq> CHR '':''"
  by (auto simp: is_digit_def)

lemma digits_value_snoc:
  "digits_value (s @ [c]) = 10 * digits_value s + (of_char c - 48)"
  by (simp add: digits_value_def)

lemma String_nat_digits: "list_all is_digit (String_nat n)"
proof (induction n rule: String_nat.induct)
  case (1 n)
  show ?case
  proof (cases "n < 10")
    case True
    then show ?thesis by (subst String_nat.simps) (simp add: is_digit_digit)
  next
    case False
    with 1 show ?thesis by (subst String_nat.simps) (simp add: is_digit_digit)
  qed
qed

lemma String_nat_value: "digits_value (String_nat n) = n"
proof (induction n rule: String_nat.induct)
  case (1 n)
  show ?case
  proof (cases "n < 10")
    case True
    then show ?thesis
      by (subst String_nat.simps) (simp add: digits_value_def of_char_digit)
  next
    case False
    with 1 have "digits_value (String_nat (n div 10)) = n div 10" by simp
    with False show ?thesis
      by (subst String_nat.simps) (simp add: digits_value_snoc of_char_digit)
  qed
qed

lemma digits_value_zeros: "digits_value (replicate k (CHR ''0'') @ s) = digits_value s"
proof -
  have "foldl (\<lambda>acc c. 10 * acc + (of_char c - 48)) 0 (replicate k (CHR ''0'')) = (0::nat)"
    by (induction k) simp_all
  then show ?thesis by (simp add: digits_value_def)
qed

lemma padStart_digits: "list_all is_digit s \<Longrightarrow> list_all is_digit (padStart n (CHR ''0'') s)"
  by (auto simp: padStart_def list_all_iff is_digit_zero)

lemma Number_padStart_String:
  assumes "0 \<le> i"
  shows "Number (padStart n (CHR ''0'') (String_int i)) = Some i"
proof -
  from assms have str: "String_int i = String_nat (nat i)"
    by (simp add: String_int_def)
  have "list_all is_digit (padStart n (CHR ''0'') (String_nat (nat i)))"
    by (rule padStart_digits) (rule String_nat_digits)
  moreover have "digits_value (padStart n (CHR ''0'') (String_nat (nat i))) = nat i"
    by (simp add: padStart_def digits_value_zeros String_nat_value)
  ultimately show ?thesis
    using assms by (simp add: Number_def str)
qed

lemma padStart_String_digits:
  "0 \<le> i \<Longrightarrow> list_all is_digit (padStart n (CHR ''0'') (String_int i))"
  by (simp add: String_int_def padStart_digits String_nat_digits)

lemma split_on_no_sep: "c \<notin> set a \<Longrightarrow> split_on c a = [a]"
  by (induction a) auto

lemma split_on_sep: "c \<notin> set a \<Longrightarrow> split_on c (a @ c # rest) = a # split_on c rest"
  by (induction a) auto

lemma getHours_nonneg: "0 \<le> getHours t"
  by (simp add: getHours_def msPerDay_def pos_imp_zdiv_nonneg_iff)

lemma getMinutes_nonneg: "0 \<le> getMinutes t"
  by (simp add: getMinutes_def pos_imp_zdiv_nonneg_iff)

lemma getSeconds_nonneg: "0 \<le> getSeconds t"
  by (simp add: getSeconds_def pos_imp_zdiv_nonneg_iff)

lemma digits_no_colon: "list_all is_digit a \<Longrightarrow> CHR '':'' \<notin> set a"
  by (auto simp: list_all_iff dest: is_digit_not_colon)

lemma split_formatTime:
  "map Number (split_on (CHR '':'') (formatTime t)) =
     [Some (getHours t), Some (getMinutes t), Some (getSeconds t)]"
proof -
  let ?H = "padStart 2 (CHR ''0'') (String_int (getHours t))"
  let ?M = "padStart 2 (CHR ''0'') (String_int (getMinutes t))"
  let ?S = "padStart 2 (CHR ''0'') (String_int (getSeconds t))"
  have H: "CHR '':'' \<notin> set ?H" and M: "CHR '':'' \<notin> set ?M" and S: "CHR '':'' \<notin> set ?S"
    by (simp_all add: digits_no_colon padStart_String_digits getHours_nonneg
        getMinutes_nonneg getSeconds_nonneg)
  have "formatTime t = ?H @ CHR '':'' # (?M @ CHR '':'' # ?S)"
    by (simp add: formatTime_def)
  then have "split_on (CHR '':'') (formatTime t) = [?H, ?M, ?S]"
    by (simp add: split_on_sep [OF H] split_on_sep [OF M] split_on_no_sep [OF S])
  then show ?thesis
    by (simp add: Number_padStart_String getHours_nonneg getMinutes_nonneg getSeconds_nonneg)
qed

lemma split_hhmm:
  "map Number (split_on (CHR '':'') (hhmm h m)) = [Some (int h), Some (int m)]"
proof -
  let ?H = "padStart 2 (CHR ''0'') (String_int (int h))"
  let ?M = "padStart 2 (CHR ''0'') (String_int (int m))"
  have H: "CHR '':'' \<notin> set ?H" and M: "CHR '':'' \<notin> set ?M"
    by (simp_all add: digits_no_colon padStart_String_digits)
  have "hhmm h m = ?H @ CHR '':'' # ?M"
    by (simp add: hhmm_def)
  then have "split_on (CHR '':'') (hhmm h m) = [?H, ?M]"
    by (simp add: split_on_sep [OF H] split_on_no_sep [OF M])
  then show ?thesis
    by (simp add: Number_padStart_String)
qed

lemma isLate_formatTime:
  "isLate (formatTime t) (hhmm sh sm) threshold \<longleftrightarrow>
     getHours t * 60 + getMinutes t > int sh * 60 + int sm + threshold"
  by (simp add: isLate_def split_formatTime split_hhmm element_def num_add_def num_mul_def
      num_gt_def)

lemma isEarlyLeave_formatTime:
  "endTime cfg = hhmm eh em \<Longrightarrow>
   isEarlyLeave cfg (formatTime t) \<longleftrightarrow>
     getHours t * 60 + getMinutes t < int eh * 60 + int em - earlyLeaveThreshold cfg"
  by (simp add: isEarlyLeave_def split_formatTime split_hhmm element_def num_add_def
      num_mul_def num_sub_def num_lt_def)

lemma minutes_since_midnight:
  "getHours t * 60 + getMinutes t = (t mod msPerDay) div 60000"
proof -
  define a where "a = t mod 86400000"
  define q where "q = a div 3600000"
  define r where "r = a mod 3600000"
  have a: "a = r + (q * 60) * 60000"
    unfolding q_def r_def by (simp add: algebra_simps)
  have "a div 60000 = (r + (q * 60) * 60000) div 60000"
    using a by simp
  also have "\<dots> = q * 60 + r div 60000"
    by (subst div_mult_self1) simp_all
  finally have 1: "a div 60000 = q * 60 + r div 60000" .
  have "r = t mod 3600000"
    unfolding r_def a_def by (simp add: mod_mod_cancel)
  with 1 show ?thesis
    by (simp add: getHours_def getMinutes_def msPerDay_def a_def q_def)
qed

section \<open>Frame lemmas for the store and the sync\<close>

lemma spread_synced: "spread x (no_updates\<lparr>upd_synced := Some b\<rparr>) = x\<lparr>synced := b\<rparr>"
  by (simp add: spread_def no_updates_def)

lemma setItem_frame:
  "setItem s v = (b, s') \<Longrightarrow>
     todayRecord s' = todayRecord s \<and> offlineQueue s' = offlineQueue s \<and>
     storageAvailable s' = storageAvailable s \<and> quotaExceeded s' = quotaExceeded s"
  by (auto simp: setItem_def showToast_def split: if_splits)

lemma updateAttendanceRecord_frame:
  assumes "updateAttendanceRecord s ident u = (b, s')"
  shows "todayRecord s' = todayRecord s \<and> offlineQueue s' = offlineQueue s \<and>
     storageAvailable s' = storageAvailable s \<and> quotaExceeded s' = quotaExceeded s"
proof (cases "findIndex (\<lambda>record. rec_id record = ident) (getAttendanceRecords s)")
  case None
  with assms show ?thesis by (simp add: updateAttendanceRecord_def)
next
  case (Some index)
  with assms have "setItem s ((getAttendanceRecords s)
      [index := spread (getAttendanceRecords s ! index) u]) = (b, s')"
    by (simp add: updateAttendanceRecord_def Let_def)
  from setItem_frame [OF this] show ?thesis .
qed

lemma updateAttendanceRecord_False:
  assumes "updateAttendanceRecord s ident u = (False, s')"
  shows "attendance s' = attendance s"
proof (cases "findIndex (\<lambda>record. rec_id record = ident) (getAttendanceRecords s)")
  case None
  with assms show ?thesis by (simp add: updateAttendanceRecord_def)
next
  case (Some index)
  with assms have "setItem s ((getAttendanceRecords s)
      [index := spread (getAttendanceRecords s ! index) u]) = (False, s')"
    by (simp add: updateAttendanceRecord_def Let_def)
  from setItem_False [OF this] show ?thesis .
qed

lemma map_update_same: "i < length xs \<Longrightarrow> (map f xs)[i := f (xs ! i)] = map f xs"
  by (simp add: list_update_same_conv)

lemma updateAttendanceRecord_map:
  assumes upd: "updateAttendanceRecord s ident u = (b, s')"
    and f: "\<And>x. f (spread x u) = f x"
  shows "map f (attendance s') = map f (attendance s)"
proof (cases b)
  case True
  with upd have "updateAttendanceRecord s ident u = (True, s')"
    by simp
  from updateAttendanceRecord_True [OF this] obtain index
    where "index < length (attendance s)"
      and "s' = s\<lparr>attendance := (attendance s)[index := spread (attendance s ! index) u]\<rparr>"
    by blast
  then show ?thesis
    by (simp add: map_update f map_update_same)
next
  case False
  with upd updateAttendanceRecord_False [of s ident u s'] show ?thesis by simp
qed

lemma syncAttendance_eq:
  "syncAttendance s r =
     snd (updateAttendanceRecord s (rec_id r) (no_updates\<lparr>upd_synced := Some True\<rparr>))"
  by (simp add: syncAttendance_def syncAttendance_try_def)

lemma syncAttendance_frame:
  "todayRecord (syncAttendance s r) = todayRecord s \<and>
   offlineQueue (syncAttendance s r) = offlineQueue s \<and>
   storageAvailable (syncAttendance s r) = storageAvailable s \<and>
   quotaExceeded (syncAttendance s r) = quotaExceeded s"
  using updateAttendanceRecord_frame
    [of s "rec_id r" "no_updates\<lparr>upd_synced := Some True\<rparr>"
        "fst (updateAttendanceRecord s (rec_id r) (no_updates\<lparr>upd_synced := Some True\<rparr>))"
        "snd (updateAttendanceRecord s (rec_id r) (no_updates\<lparr>upd_synced := Some True\<rparr>))"]
  by (simp add: syncAttendance_eq)

lemma syncAttendance_map:
  assumes "\<And>x b. f (x\<lparr>synced := b\<rparr>) = f x"
  shows "map f (attendance (syncAttendance s r)) = map f (attendance s)"
  using updateAttendanceRecord_map
    [of s "rec_id r" "no_updates\<lparr>upd_synced := Some True\<rparr>"
        "fst (updateAttendanceRecord s (rec_id r) (no_updates\<lparr>upd_synced := Some True\<rparr>))"
        "snd (updateAttendanceRecord s (rec_id r) (no_updates\<lparr>upd_synced := Some True\<rparr>))" f]
    assms
  by (simp add: syncAttendance_eq spread_synced)

lemma addToOfflineQueue_simps:
  "attendance (addToOfflineQueue s r) = attendance s"
  "todayRecord (addToOfflineQueue s r) = todayRecord s"
  "offlineQueue (addToOfflineQueue s r) = offlineQueue s @ [r]"
  by (simp_all add: addToOfflineQueue_def showToast_def)

section \<open>Time-in\<close>

lemma saveAttendanceRecord_True:
  assumes "saveAttendanceRecord s g r0 = ((True, s2), r)"
  shows "storageAvailable s \<and> \<not> quotaExceeded s \<and>
     r = (if rec_id r0 = [] then r0\<lparr>rec_id := g\<rparr> else r0) \<and>
     s2 = s\<lparr>attendance := attendance s @ [r]\<rparr>"
proof -
  from assms have r: "r = (if rec_id r0 = [] then r0\<lparr>rec_id := g\<rparr> else r0)"
    and set: "setItem s (getAttendanceRecords s @ [r]) = (True, s2)"
    by (auto simp: saveAttendanceRecord_def Let_def)
  from setItem_True [OF set] r show ?thesis
    by (simp add: getAttendanceRecords_def)
qed

lemma handleTimeIn_success:
  assumes ok: "handleTimeIn cfg env s = (Inr (), s')"
  shows "authenticated env \<and> geofenceValid env \<and> storageAvailable s \<and> \<not> quotaExceeded s \<and>
    (\<exists>record. todayRecord s' = Some record \<and>
       rec_id record = generatedId env \<and>
       date record = formatDate (now env) \<and>
       dateTime record = now env \<and>
       timeIn record = Some (now env) \<and>
       timeOut record = None \<and>
       synced record = False \<and>
       status record =
         (if isLate (formatTime (now env)) (startTime cfg) (lateThreshold cfg)
          then Late else Present) \<and>
       map (\<lambda>r. r\<lparr>synced := False\<rparr>) (attendance s') =
         map (\<lambda>r. r\<lparr>synced := False\<rparr>) (attendance s) @ [record] \<and>
       offlineQueue s' =
         (if onLine env then offlineQueue s else offlineQueue s @ [record]))"
proof -
  have auth: "authenticated env"
    using ok by (rule contrapos_pp) (simp add: handleTimeIn_def)
  have geo: "geofenceValid env"
    using ok by (rule contrapos_pp) (simp add: handleTimeIn_def validateLocation_def auth)
  from ok auth geo obtain fv ph where face: "faceSteps env s = Inr (fv, ph)"
    by (cases "faceSteps env s") (auto simp: handleTimeIn_def validateLocation_def)
  define r0 where "r0 =
     \<lparr>rec_id = generatedId env, userId = currentUserId env, userName = currentUserName env,
      date = formatDate (now env), dateTime = now env, timeIn = Some (now env),
      timeInFormatted = formatTime (now env), timeOut = None,
      location = \<lparr>latitude = latitude (currentPosition env),
                  longitude = longitude (currentPosition env),
                  accuracy = accuracy (currentPosition env)\<rparr>,
      photo = ph, faceVerified = fv,
      status = (if isLate (formatTime (now env)) (startTime cfg) (lateThreshold cfg)
                then Late else Present),
      synced = False, timeOutFormatted = None, checkoutLocation = None, checkoutPhoto = None,
      workHours = None, workMinutes = None, totalWorkMinutes = None, earlyLeave = None\<rparr>"
  obtain b s2 saved where save: "saveAttendanceRecord s (generatedId env) r0 = ((b, s2), saved)"
    by (metis surj_pair)
  from ok auth geo face save have b: "b"
    by (cases b) (simp_all add: handleTimeIn_def validateLocation_def Let_def r0_def)
  with save have save': "saveAttendanceRecord s (generatedId env) r0 = ((True, s2), saved)"
    by simp
  from saveAttendanceRecord_True [OF save']
  have avail: "storageAvailable s" "\<not> quotaExceeded s"
    and saved: "saved = (if rec_id r0 = [] then r0\<lparr>rec_id := generatedId env\<rparr> else r0)"
    and s2: "s2 = s\<lparr>attendance := attendance s @ [saved]\<rparr>"
    by simp_all
  from saved have record_eq: "saved = r0"
    by (simp add: r0_def)
  define s3 where "s3 = showToast (s2\<lparr>todayRecord := Some saved\<rparr>) SUCCESS_checkinSuccess ''success''"
  from ok auth geo face save' have s': "s' = (if onLine env then syncAttendance s3 saved
      else addToOfflineQueue s3 saved)"
    by (auto simp: handleTimeIn_def validateLocation_def Let_def r0_def s3_def)
  have s3: "attendance s3 = attendance s @ [saved]" "todayRecord s3 = Some saved"
    "offlineQueue s3 = offlineQueue s"
    by (simp_all add: s3_def s2 showToast_def)
  have today: "todayRecord s' = Some saved"
    by (simp add: s' syncAttendance_frame addToOfflineQueue_simps s3)
  have queue: "offlineQueue s' = (if onLine env then offlineQueue s else offlineQueue s @ [saved])"
    by (simp add: s' syncAttendance_frame addToOfflineQueue_simps s3)
  have "map (\<lambda>r. r\<lparr>synced := False\<rparr>) (attendance s') =
      map (\<lambda>r. r\<lparr>synced := False\<rparr>) (attendance s3)"
    by (simp add: s' syncAttendance_map addToOfflineQueue_simps)
  then have store: "map (\<lambda>r. r\<lparr>synced := False\<rparr>) (attendance s') =
      map (\<lambda>r. r\<lparr>synced := False\<rparr>) (attendance s) @ [saved]"
    by (simp add: s3 record_eq r0_def)
  from auth geo avail today queue store show ?thesis
    by (simp add: record_eq r0_def)
qed

text \<open>
  C5. A successful \<open>handleTimeIn\<close> creates a record (appended to the store and cached as
  today's record, with no time-out) whose status is \<open>late\<close> exactly when the minutes since
  midnight of the check-in, \<open>getHours * 60 + getMinutes\<close>, are strictly greater than those of
  the scheduled start plus the late threshold, and \<open>present\<close> otherwise.
\<close>

theorem handleTimeIn_status:
  assumes "handleTimeIn cfg env s = (Inr (), s')"
    and "startTime cfg = hhmm sh sm"
  shows "\<exists>record. todayRecord s' = Some record \<and> timeOut record = None \<and>
     map (\<lambda>r. r\<lparr>synced := False\<rparr>) (attendance s') =
       map (\<lambda>r. r\<lparr>synced := False\<rparr>) (attendance s) @ [record] \<and>
     status record =
       (if getHours (now env) * 60 + getMinutes (now env) >
           int sh * 60 + int sm + lateThreshold cfg
        then Late else Present)"
  using handleTimeIn_success [OF assms(1)] assms(2)
  by (auto simp: isLate_formatTime)

theorem handleTimeIn_status_witness:
  "fst (handleTimeIn CONFIG_WORK_SCHEDULE (sample_environment (june2024 3 8 59)) (sample_state [])) = Inr () \<and>
   map_option status (todayRecord (snd (handleTimeIn CONFIG_WORK_SCHEDULE
     (sample_environment (june2024 3 8 59)) (sample_state [])))) = Some Present \<and>
   fst (handleTimeIn CONFIG_WORK_SCHEDULE (sample_environment (june2024 3 9 15)) (sample_state [])) = Inr () \<and>
   map_option status (todayRecord (snd (handleTimeIn CONFIG_WORK_SCHEDULE
     (sample_environment (june2024 3 9 15)) (sample_state [])))) = Some Present \<and>
   fst (handleTimeIn CONFIG_WORK_SCHEDULE (sample_environment (june2024 3 9 16)) (sample_state [])) = Inr () \<and>
   map_option status (todayRecord (snd (handleTimeIn CONFIG_WORK_SCHEDULE
     (sample_environment (june2024 3 9 16)) (sample_state [])))) = Some Late"
proof -
  have start: "startTime CONFIG_WORK_SCHEDULE = hhmm 9 0"
    by code_simp
  have thr: "lateThreshold CONFIG_WORK_SCHEDULE = 15"
    by (simp add: CONFIG_WORK_SCHEDULE_def)
  have a: "fst (handleTimeIn CONFIG_WORK_SCHEDULE (sample_environment (june2024 3 8 59))
      (sample_state [])) = Inr ()"
    by code_simp
  have b: "fst (handleTimeIn CONFIG_WORK_SCHEDULE (sample_environment (june2024 3 9 15))
      (sample_state [])) = Inr ()"
    by code_simp
  have c: "fst (handleTimeIn CONFIG_WORK_SCHEDULE (sample_environment (june2024 3 9 16))
      (sample_state [])) = Inr ()"
    by code_simp
  have ta: "getHours (june2024 3 8 59) * 60 + getMinutes (june2024 3 8 59) = 539"
    and tb: "getHours (june2024 3 9 15) * 60 + getMinutes (june2024 3 9 15) = 555"
    and tc: "getHours (june2024 3 9 16) * 60 + getMinutes (june2024 3 9 16) = 556"
    by code_simp+
  have now: "\<And>t. now (sample_environment t) = t"
    by (simp add: sample_environment_def)
  from handleTimeIn_status [OF _ start, of "sample_environment (june2024 3 8 59)" "sample_state []"
      "snd (handleTimeIn CONFIG_WORK_SCHEDULE (sample_environment (june2024 3 8 59)) (sample_state []))"] a
  have "map_option status (todayRecord (snd (handleTimeIn CONFIG_WORK_SCHEDULE
     (sample_environment (june2024 3 8 59)) (sample_state [])))) = Some Present"
    by (auto simp: prod_eq_iff now ta thr)
  moreover
  from handleTimeIn_status [OF _ start, of "sample_environment (june2024 3 9 15)" "sample_state []"
      "snd (handleTimeIn CONFIG_WORK_SCHEDULE (sample_environment (june2024 3 9 15)) (sample_state []))"] b
  have "map_option status (todayRecord (snd (handleTimeIn CONFIG_WORK_SCHEDULE
     (sample_environment (june2024 3 9 15)) (sample_state [])))) = Some Present"
    by (auto simp: prod_eq_iff now tb thr)
  moreover
  from handleTimeIn_status [OF _ start, of "sample_environment (june2024 3 9 16)" "sample_state []"
      "snd (handleTimeIn CONFIG_WORK_SCHEDULE (sample_environment (june2024 3 9 16)) (sample_state []))"] c
  have "map_option status (todayRecord (snd (handleTimeIn CONFIG_WORK_SCHEDULE
     (sample_environment (june2024 3 9 16)) (sample_state [])))) = Some Late"
    by (auto simp: prod_eq_iff now tc thr)
  ultimately show ?thesis
    using a b c by simp
qed

section \<open>Time-out\<close>

lemma handleTimeOut_unauthenticated:
  "\<not> authenticated env \<Longrightarrow>
     handleTimeOut cfg env s = (Inl AuthRequired, showToast s ''Please login first'' ''error'')"
  by (simp add: handleTimeOut_def)

lemma handleTimeOut_not_checked_in:
  assumes "authenticated env"
    and "(case todayRecord s of None \<Rightarrow> True | Some today \<Rightarrow> timeIn today = None)"
  shows "handleTimeOut cfg env s = (Inl NotCheckedIn, showToast s ERROR_notCheckedIn ''error'')"
  using assms by (simp add: handleTimeOut_def split: option.splits)

lemma handleTimeOut_outside:
  assumes "authenticated env" "todayRecord s = Some today" "timeIn today = Some tin"
    "\<not> geofenceValid env"
  shows "handleTimeOut cfg env s = (Inl OutsideGeofence, showToast s ERROR_outsideGeofence ''error'')"
  using assms by (simp add: handleTimeOut_def validateLocation_def)

lemma handleTimeOut_checked_in:
  assumes "authenticated env" "todayRecord s = Some today" "timeIn today = Some tin"
    "geofenceValid env"
  shows "handleTimeOut cfg env s =
     (case updateAttendanceRecord s (rec_id today) (timeOutUpdates cfg env today tin) of
        (True, s2) \<Rightarrow>
          (let today' = spread today (timeOutUpdates cfg env today tin);
               s3 = showToast (s2\<lparr>todayRecord := Some today'\<rparr>) SUCCESS_checkoutSuccess ''success''
           in (Inr (), if onLine env then syncAttendance s3 today'
                       else addToOfflineQueue s3 today'))
      | (False, s2) \<Rightarrow>
          (Inl UpdateFailed,
           showToast s2 ''Failed to update attendance. Please try again.'' ''error''))"
  unfolding handleTimeOut_def timeOutUpdates_def validateLocation_def Let_def
  using assms by simp

lemma timeOutUpdates_fields:
  "upd_status (timeOutUpdates cfg env today tin) =
     (if isEarlyLeave cfg (formatTime (now env)) \<and> status today = Present
      then Some Early_leave else None)"
  "upd_earlyLeave (timeOutUpdates cfg env today tin) =
     Some (Some (isEarlyLeave cfg (formatTime (now env))))"
  "upd_timeOut (timeOutUpdates cfg env today tin) = Some (Some (now env))"
  "upd_totalWorkMinutes (timeOutUpdates cfg env today tin) =
     Some (Some ((now env - tin) div 60000))"
  "upd_rec_id (timeOutUpdates cfg env today tin) = None"
  "upd_date (timeOutUpdates cfg env today tin) = None"
  "upd_dateTime (timeOutUpdates cfg env today tin) = None"
  "upd_timeIn (timeOutUpdates cfg env today tin) = None"
  by (simp_all add: timeOutUpdates_def Let_def no_updates_def calculateTimeDifference_def)

lemma spread_timeOutUpdates:
  "status (spread r (timeOutUpdates cfg env today tin)) =
     (if isEarlyLeave cfg (formatTime (now env)) \<and> status today = Present
      then Early_leave else status r)"
  "earlyLeave (spread r (timeOutUpdates cfg env today tin)) =
     Some (isEarlyLeave cfg (formatTime (now env)))"
  "timeOut (spread r (timeOutUpdates cfg env today tin)) = Some (now env)"
  "totalWorkMinutes (spread r (timeOutUpdates cfg env today tin)) =
     Some ((now env - tin) div 60000)"
  "rec_id (spread r (timeOutUpdates cfg env today tin)) = rec_id r"
  "date (spread r (timeOutUpdates cfg env today tin)) = date r"
  "dateTime (spread r (timeOutUpdates cfg env today tin)) = dateTime r"
  "timeIn (spread r (timeOutUpdates cfg env today tin)) = timeIn r"
  by (simp_all add: spread_def timeOutUpdates_fields)

lemma handleTimeOut_success:
  assumes ok: "handleTimeOut cfg env s = (Inr (), s')"
  shows "authenticated env \<and> geofenceValid env \<and>
    (\<exists>today tin index.
       todayRecord s = Some today \<and> timeIn today = Some tin \<and>
       index < length (attendance s) \<and>
       findIndex (\<lambda>r. rec_id r = rec_id today) (attendance s) = Some index \<and>
       todayRecord s' = Some (spread today (timeOutUpdates cfg env today tin)) \<and>
       map (\<lambda>r. r\<lparr>synced := False\<rparr>) (attendance s') =
         map (\<lambda>r. r\<lparr>synced := False\<rparr>)
           ((attendance s)[index := spread (attendance s ! index)
                                      (timeOutUpdates cfg env today tin)]) \<and>
       offlineQueue s' =
         (if onLine env then offlineQueue s
          else offlineQueue s @ [spread today (timeOutUpdates cfg env today tin)]))"
proof -
  have auth: "authenticated env"
    using ok by (rule contrapos_pp) (simp add: handleTimeOut_unauthenticated)
  have "\<not> (case todayRecord s of None \<Rightarrow> True | Some today \<Rightarrow> timeIn today = None)"
    using ok by (rule contrapos_pp) (simp add: handleTimeOut_not_checked_in [OF auth])
  then obtain today tin where today: "todayRecord s = Some today" and tin: "timeIn today = Some tin"
    by (auto split: option.splits)
  have geo: "geofenceValid env"
    using ok by (rule contrapos_pp) (simp add: handleTimeOut_outside [OF auth today tin])
  let ?U = "timeOutUpdates cfg env today tin"
  obtain b s2 where upd: "updateAttendanceRecord s (rec_id today) ?U = (b, s2)"
    by (metis surj_pair)
  note step = handleTimeOut_checked_in [OF auth today tin geo, of cfg]
  from ok step upd have b: "b"
    by (cases b) simp_all
  with upd have upd': "updateAttendanceRecord s (rec_id today) ?U = (True, s2)"
    by simp
  from updateAttendanceRecord_True [OF upd'] obtain index
    where len: "index < length (attendance s)"
      and idx: "findIndex (\<lambda>r. rec_id r = rec_id today) (attendance s) = Some index"
      and s2: "s2 = s\<lparr>attendance := (attendance s)[index := spread (attendance s ! index) ?U]\<rparr>"
    by blast
  define s3 where "s3 = showToast (s2\<lparr>todayRecord := Some (spread today ?U)\<rparr>)
      SUCCESS_checkoutSuccess ''success''"
  from ok step upd' have s': "s' = (if onLine env then syncAttendance s3 (spread today ?U)
      else addToOfflineQueue s3 (spread today ?U))"
    by (auto simp: Let_def s3_def)
  have s3: "attendance s3 = (attendance s)[index := spread (attendance s ! index) ?U]"
    "todayRecord s3 = Some (spread today ?U)" "offlineQueue s3 = offlineQueue s"
    by (simp_all add: s3_def s2 showToast_def)
  have t: "todayRecord s' = Some (spread today ?U)"
    by (simp add: s' syncAttendance_frame addToOfflineQueue_simps s3)
  have q: "offlineQueue s' =
      (if onLine env then offlineQueue s else offlineQueue s @ [spread today ?U])"
    by (simp add: s' syncAttendance_frame addToOfflineQueue_simps s3)
  have "map (\<lambda>r. r\<lparr>synced := False\<rparr>) (attendance s') =
      map (\<lambda>r. r\<lparr>synced := False\<rparr>) (attendance s3)"
    by (simp add: s' syncAttendance_map addToOfflineQueue_simps)
  with s3 have a: "map (\<lambda>r. r\<lparr>synced := False\<rparr>) (attendance s') =
      map (\<lambda>r. r\<lparr>synced := False\<rparr>)
        ((attendance s)[index := spread (attendance s ! index) ?U])"
    by simp
  from auth geo today tin len idx t q a show ?thesis
    by blast
qed

text \<open>
  C6. After a successful \<open>handleTimeOut\<close> the flag \<open>earlyLeave\<close> of today's record, in the
  cache and in the store, is true exactly when the minutes since midnight of the check-out
  are strictly less than those of the scheduled end minus the early-leave threshold. The
  status becomes \<open>early_leave\<close> exactly when that flag is true and the status before was
  \<open>present\<close>; otherwise the status stays what it was, so \<open>late\<close> is never overwritten.
\<close>

theorem handleTimeOut_early_leave:
  assumes "handleTimeOut cfg env s = (Inr (), s')"
    and "endTime cfg = hhmm eh em"
  shows "\<exists>today index after.
     todayRecord s = Some today \<and> todayRecord s' = Some after \<and>
     findIndex (\<lambda>r. rec_id r = rec_id today) (attendance s) = Some index \<and>
     index < length (attendance s') \<and>
     (let early = (getHours (now env) * 60 + getMinutes (now env) <
                   int eh * 60 + int em - earlyLeaveThreshold cfg)
      in earlyLeave after = Some early \<and>
         status after = (if early \<and> status today = Present then Early_leave else status today) \<and>
         earlyLeave (attendance s' ! index) = Some early \<and>
         status (attendance s' ! index) =
           (if early \<and> status today = Present then Early_leave
            else status (attendance s ! index)))"
proof -
  from handleTimeOut_success [OF assms(1)] obtain today tin index
    where today: "todayRecord s = Some today"
      and len: "index < length (attendance s)"
      and idx: "findIndex (\<lambda>r. rec_id r = rec_id today) (attendance s) = Some index"
      and after: "todayRecord s' = Some (spread today (timeOutUpdates cfg env today tin))"
      and store: "map (\<lambda>r. r\<lparr>synced := False\<rparr>) (attendance s') =
         map (\<lambda>r. r\<lparr>synced := False\<rparr>)
           ((attendance s)[index := spread (attendance s ! index)
                                      (timeOutUpdates cfg env today tin)])"
    by blast
  let ?U = "timeOutUpdates cfg env today tin"
  from arg_cong [OF store, of length] have "length (attendance s') = length (attendance s)"
    by simp
  with len have len': "index < length (attendance s')"
    by simp
  from arg_cong [OF store, of "\<lambda>xs. xs ! index"] len len'
  have eq: "(attendance s' ! index)\<lparr>synced := False\<rparr> =
      (spread (attendance s ! index) ?U)\<lparr>synced := False\<rparr>"
    by simp
  from arg_cong [OF eq, of status] arg_cong [OF eq, of earlyLeave]
  have stored: "status (attendance s' ! index) = status (spread (attendance s ! index) ?U)"
      "earlyLeave (attendance s' ! index) = earlyLeave (spread (attendance s ! index) ?U)"
    by simp_all
  from today after idx len' stored show ?thesis
    by (simp add: spread_timeOutUpdates isEarlyLeave_formatTime [OF assms(2)] Let_def)
qed

theorem handleTimeOut_early_leave_witness:
  "fst (handleTimeOut CONFIG_WORK_SCHEDULE (sample_environment (june2024 3 16 29))
          (checked_in_state Present)) = Inr () \<and>
   map_option status (todayRecord (snd (handleTimeOut CONFIG_WORK_SCHEDULE
     (sample_environment (june2024 3 16 29)) (checked_in_state Present)))) = Some Early_leave \<and>
   map_option earlyLeave (todayRecord (snd (handleTimeOut CONFIG_WORK_SCHEDULE
     (sample_environment (june2024 3 16 29)) (checked_in_state Present)))) = Some (Some True) \<and>
   fst (handleTimeOut CONFIG_WORK_SCHEDULE (sample_environment (june2024 3 16 29))
          (checked_in_state Late)) = Inr () \<and>
   map_option status (todayRecord (snd (handleTimeOut CONFIG_WORK_SCHEDULE
     (sample_environment (june2024 3 16 29)) (checked_in_state Late)))) = Some Late \<and>
   map_option earlyLeave (todayRecord (snd (handleTimeOut CONFIG_WORK_SCHEDULE
     (sample_environment (june2024 3 16 29)) (checked_in_state Late)))) = Some (Some True) \<and>
   fst (handleTimeOut CONFIG_WORK_SCHEDULE (sample_environment (june2024 3 16 30))
          (checked_in_state Present)) = Inr () \<and>
   map_option status (todayRecord (snd (handleTimeOut CONFIG_WORK_SCHEDULE
     (sample_environment (june2024 3 16 30)) (checked_in_state Present)))) = Some Present \<and>
   map_option earlyLeave (todayRecord (snd (handleTimeOut CONFIG_WORK_SCHEDULE
     (sample_environment (june2024 3 16 30)) (checked_in_state Present)))) = Some (Some False)"
proof -
  have endT: "endTime CONFIG_WORK_SCHEDULE = hhmm 17 0"
    by code_simp
  have thr: "earlyLeaveThreshold CONFIG_WORK_SCHEDULE = 30"
    by (simp add: CONFIG_WORK_SCHEDULE_def)
  have a: "fst (handleTimeOut CONFIG_WORK_SCHEDULE (sample_environment (june2024 3 16 29))
      (checked_in_state Present)) = Inr ()"
    by code_simp
  have b: "fst (handleTimeOut CONFIG_WORK_SCHEDULE (sample_environment (june2024 3 16 29))
      (checked_in_state Late)) = Inr ()"
    by code_simp
  have c: "fst (handleTimeOut CONFIG_WORK_SCHEDULE (sample_environment (june2024 3 16 30))
      (checked_in_state Present)) = Inr ()"
    by code_simp
  have ta: "getHours (june2024 3 16 29) * 60 + getMinutes (june2024 3 16 29) = 989"
    and tc: "getHours (june2024 3 16 30) * 60 + getMinutes (june2024 3 16 30) = 990"
    by code_simp+
  have now: "\<And>t. now (sample_environment t) = t"
    by (simp add: sample_environment_def)
  have prior: "\<And>st. todayRecord (checked_in_state st) =
      Some (sample_record ''id1'' ''03/06/2024'' (june2024 3 9 0) st)"
    "\<And>i d t st. status (sample_record i d t st) = st"
    by (simp_all add: checked_in_state_def sample_record_def)
  from handleTimeOut_early_leave [OF _ endT, of "sample_environment (june2024 3 16 29)"
      "checked_in_state Present"
      "snd (handleTimeOut CONFIG_WORK_SCHEDULE (sample_environment (june2024 3 16 29))
         (checked_in_state Present))"] a
  have "map_option status (todayRecord (snd (handleTimeOut CONFIG_WORK_SCHEDULE
       (sample_environment (june2024 3 16 29)) (checked_in_state Present)))) = Some Early_leave \<and>
     map_option earlyLeave (todayRecord (snd (handleTimeOut CONFIG_WORK_SCHEDULE
       (sample_environment (june2024 3 16 29)) (checked_in_state Present)))) = Some (Some True)"
    by (auto simp: prod_eq_iff now ta thr prior Let_def)
  moreover
  from handleTimeOut_early_leave [OF _ endT, of "sample_environment (june2024 3 16 29)"
      "checked_in_state Late"
      "snd (handleTimeOut CONFIG_WORK_SCHEDULE (sample_environment (june2024 3 16 29))
         (checked_in_state Late))"] b
  have "map_option status (todayRecord (snd (handleTimeOut CONFIG_WORK_SCHEDULE
       (sample_environment (june2024 3 16 29)) (checked_in_state Late)))) = Some Late \<and>
     map_option earlyLeave (todayRecord (snd (handleTimeOut CONFIG_WORK_SCHEDULE
       (sample_environment (june2024 3 16 29)) (checked_in_state Late)))) = Some (Some True)"
    by (auto simp: prod_eq_iff now ta thr prior Let_def)
  moreover
  from handleTimeOut_early_leave [OF _ endT, of "sample_environment (june2024 3 16 30)"
      "checked_in_state Present"
      "snd (handleTimeOut CONFIG_WORK_SCHEDULE (sample_environment (june2024 3 16 30))
         (checked_in_state Present))"] c
  have "map_option status (todayRecord (snd (handleTimeOut CONFIG_WORK_SCHEDULE
       (sample_environment (june2024 3 16 30)) (checked_in_state Present)))) = Some Present \<and>
     map_option earlyLeave (todayRecord (snd (handleTimeOut CONFIG_WORK_SCHEDULE
       (sample_environment (june2024 3 16 30)) (checked_in_state Present)))) = Some (Some False)"
    by (auto simp: prod_eq_iff now tc thr prior Let_def)
  ultimately show ?thesis
    using a b c by simp
qed

text \<open>
  The claim C1 as stated fails. After a time-in at 09:00 and a time-out at 12:00 the latest
  record of the day has its time-out set and is the cached record of today; a further
  time-out at 13:00 succeeds and overwrites the stored time-out.
\<close>

theorem handleTimeOut_after_time_out_succeeds:
  "map_option rec_id (todayRecord checked_out_state) =
     map_option rec_id (getTodayAttendance checked_out_state (june2024 3 13 0)) \<and>
   map_option timeOut (todayRecord checked_out_state) = Some (Some (june2024 3 12 0)) \<and>
   map_option timeIn (getTodayAttendance checked_out_state (june2024 3 13 0)) =
     Some (Some (june2024 3 9 0)) \<and>
   map_option timeOut (getTodayAttendance checked_out_state (june2024 3 13 0)) =
     Some (Some (june2024 3 12 0)) \<and>
   map timeOut (attendance checked_out_state) = [Some (june2024 3 12 0)] \<and>
   fst (handleTimeOut CONFIG_WORK_SCHEDULE (sample_environment (june2024 3 13 0))
          checked_out_state) = Inr () \<and>
   map timeOut (attendance (snd (handleTimeOut CONFIG_WORK_SCHEDULE
     (sample_environment (june2024 3 13 0)) checked_out_state))) = [Some (june2024 3 13 0)]"
  by code_simp

text \<open>
  C1, amended. For an authenticated user \<open>handleTimeOut\<close> fails with \<open>NotCheckedIn\<close> exactly
  when the cached record of today is absent or has no time-in; then the state changes by
  the error toast only, so no stored record is mutated. It succeeds only when the cached
  record has its time-in set, whether or not that record already has a time-out. When
  the cache is what \<open>getTodayAttendance\<close> reads and the store has no record of the current
  date, the time-out fails with \<open>NotCheckedIn\<close>.
\<close>

theorem handleTimeOut_not_checked_in_iff:
  assumes "authenticated env"
  shows "(fst (handleTimeOut cfg env s) = Inl NotCheckedIn \<longleftrightarrow>
            (case todayRecord s of None \<Rightarrow> True | Some today \<Rightarrow> timeIn today = None)) \<and>
         (fst (handleTimeOut cfg env s) = Inl NotCheckedIn \<longrightarrow>
            snd (handleTimeOut cfg env s) = showToast s ERROR_notCheckedIn ''error'' \<and>
            attendance (snd (handleTimeOut cfg env s)) = attendance s) \<and>
         (fst (handleTimeOut cfg env s) = Inr () \<longrightarrow>
            (\<exists>today tin. todayRecord s = Some today \<and> timeIn today = Some tin)) \<and>
         (todayRecord s = getTodayAttendance s (now env) \<and>
          (\<forall>r \<in> set (getAttendanceRecords s). date r \<noteq> formatDate (now env)) \<longrightarrow>
            handleTimeOut cfg env s =
              (Inl NotCheckedIn, showToast s ERROR_notCheckedIn ''error''))"
proof -
  let ?guard = "case todayRecord s of None \<Rightarrow> True | Some today \<Rightarrow> timeIn today = None"
  have fails: "?guard \<Longrightarrow>
      handleTimeOut cfg env s = (Inl NotCheckedIn, showToast s ERROR_notCheckedIn ''error'')"
    by (rule handleTimeOut_not_checked_in [OF assms])
  have passes: "fst (handleTimeOut cfg env s) \<noteq> Inl NotCheckedIn" if "\<not> ?guard"
  proof -
    from that obtain today tin where today: "todayRecord s = Some today"
      and tin: "timeIn today = Some tin"
      by (auto split: option.splits)
    show ?thesis
    proof (cases "geofenceValid env")
      case False
      from handleTimeOut_outside [OF assms today tin False] show ?thesis by simp
    next
      case True
      obtain b s2 where "updateAttendanceRecord s (rec_id today)
          (timeOutUpdates cfg env today tin) = (b, s2)"
        by (metis surj_pair)
      with handleTimeOut_checked_in [OF assms today tin True, of cfg] show ?thesis
        by (cases b) (simp_all add: Let_def)
    qed
  qed
  have iff: "fst (handleTimeOut cfg env s) = Inl NotCheckedIn \<longleftrightarrow> ?guard"
    using fails passes by auto
  have frame: "fst (handleTimeOut cfg env s) = Inl NotCheckedIn \<longrightarrow>
      snd (handleTimeOut cfg env s) = showToast s ERROR_notCheckedIn ''error'' \<and>
      attendance (snd (handleTimeOut cfg env s)) = attendance s"
    using iff fails by (auto simp: showToast_def)
  have succ: "fst (handleTimeOut cfg env s) = Inr () \<longrightarrow>
      (\<exists>today tin. todayRecord s = Some today \<and> timeIn today = Some tin)"
  proof
    assume "fst (handleTimeOut cfg env s) = Inr ()"
    with fails have "\<not> ?guard"
      by auto
    then show "\<exists>today tin. todayRecord s = Some today \<and> timeIn today = Some tin"
      by (auto split: option.splits)
  qed
  have none: "todayRecord s = getTodayAttendance s (now env) \<and>
      (\<forall>r \<in> set (getAttendanceRecords s). date r \<noteq> formatDate (now env)) \<longrightarrow>
      handleTimeOut cfg env s = (Inl NotCheckedIn, showToast s ERROR_notCheckedIn ''error'')"
  proof
    assume h: "todayRecord s = getTodayAttendance s (now env) \<and>
      (\<forall>r \<in> set (getAttendanceRecords s). date r \<noteq> formatDate (now env))"
    then have "filter (\<lambda>record. date record = formatDate (now env)) (getAttendanceRecords s) = []"
      by (simp add: filter_empty_conv)
    with h have "todayRecord s = None"
      by (simp add: getTodayAttendance_def Let_def)
    then show "handleTimeOut cfg env s =
        (Inl NotCheckedIn, showToast s ERROR_notCheckedIn ''error'')"
      using fails by simp
  qed
  from iff frame succ none show ?thesis by blast
qed

theorem handleTimeOut_not_checked_in_iff_witness:
  "authenticated (sample_environment (june2024 3 13 0)) \<and>
   todayRecord (sample_state []) = getTodayAttendance (sample_state []) (june2024 3 13 0) \<and>
   handleTimeOut CONFIG_WORK_SCHEDULE (sample_environment (june2024 3 13 0)) (sample_state []) =
     (Inl NotCheckedIn, showToast (sample_state []) ERROR_notCheckedIn ''error'') \<and>
   fst (handleTimeOut CONFIG_WORK_SCHEDULE (sample_environment (june2024 3 13 0))
          (checked_in_state Present)) \<noteq> Inl NotCheckedIn"
proof -
  have auth: "authenticated (sample_environment (june2024 3 13 0))"
    by (simp add: sample_environment_def)
  have coherent: "todayRecord (sample_state []) =
      getTodayAttendance (sample_state []) (june2024 3 13 0)"
    by (simp add: sample_state_def getTodayAttendance_def getAttendanceRecords_def)
  have empty: "\<forall>r \<in> set (getAttendanceRecords (sample_state [])).
      date r \<noteq> formatDate (now (sample_environment (june2024 3 13 0)))"
    by (simp add: sample_state_def getAttendanceRecords_def)
  have now: "now (sample_environment (june2024 3 13 0)) = june2024 3 13 0"
    by (simp add: sample_environment_def)
  have cached: "\<not> (case todayRecord (checked_in_state Present) of None \<Rightarrow> True
      | Some today \<Rightarrow> timeIn today = None)"
    by (simp add: checked_in_state_def sample_record_def)
  note T = handleTimeOut_not_checked_in_iff [OF auth, of CONFIG_WORK_SCHEDULE]
  from T [of "sample_state []"] coherent empty now
  have "handleTimeOut CONFIG_WORK_SCHEDULE (sample_environment (june2024 3 13 0))
      (sample_state []) = (Inl NotCheckedIn, showToast (sample_state []) ERROR_notCheckedIn ''error'')"
    by simp
  moreover from T [of "checked_in_state Present"] cached
  have "fst (handleTimeOut CONFIG_WORK_SCHEDULE (sample_environment (june2024 3 13 0))
      (checked_in_state Present)) \<noteq> Inl NotCheckedIn"
    by blast
  ultimately show ?thesis
    using auth coherent by blast
qed

section \<open>Geofence\<close>

lemma haversine_a_eq:
  "haversine_a lat1 lon1 lat2 lon2 =
     hav (radians lat2 - radians lat1) +
     cos (radians lat1) * cos (radians lat2) * hav (radians lon2 - radians lon1)"
  by (simp add: haversine_a_def hav_def radians_def power2_eq_square diff_divide_distrib
      algebra_simps)

lemma hav_bounds: "0 \<le> hav x \<and> hav x \<le> 1"
  by (simp add: hav_def abs_square_le_1)

lemma hav_cos: "hav x = (1 - cos x) / 2"
proof -
  have "cos (2 * (x / 2)) = 1 - 2 * (sin (x / 2))\<^sup>2"
    by (rule cos_double_sin)
  then show ?thesis by (simp add: hav_def)
qed

lemma haversine_a_bounds:
  "0 \<le> haversine_a lat1 lon1 lat2 lon2 \<and> haversine_a lat1 lon1 lat2 lon2 \<le> 1"
proof -
  define p where "p = radians lat1"
  define q where "q = radians lat2"
  define h where "h = hav (radians lon2 - radians lon1)"
  have h: "0 \<le> h" "h \<le> 1"
    using hav_bounds [of "radians lon2 - radians lon1"] by (simp_all add: h_def)
  have a0: "haversine_a lat1 lon1 lat2 lon2 = hav (q - p) + cos p * cos q * h"
    unfolding p_def q_def h_def by (rule haversine_a_eq)
  have a: "haversine_a lat1 lon1 lat2 lon2 =
      (1 - cos (q - p)) / 2 + ((cos (p - q) + cos (p + q)) / 2) * h"
    unfolding a0 hav_cos cos_times_cos by simp
  have cpq: "cos (p - q) = cos (q - p)"
    by (metis cos_minus minus_diff_eq)
  have a': "haversine_a lat1 lon1 lat2 lon2 =
      1 / 2 - (1 - h) * cos (q - p) / 2 + h * cos (p + q) / 2"
    unfolding a cpq by (simp add: field_simps)
  have c1: "- 1 \<le> cos (q - p)" "cos (q - p) \<le> 1" and c2: "- 1 \<le> cos (p + q)" "cos (p + q) \<le> 1"
    by simp_all
  have u1: "(1 - h) * cos (q - p) \<le> (1 - h) * 1"
    using h c1 by (intro mult_left_mono) simp_all
  have l1: "(1 - h) * (- 1) \<le> (1 - h) * cos (q - p)"
    using h c1 by (intro mult_left_mono) simp_all
  have u2: "h * cos (p + q) \<le> h * 1"
    using h c2 by (intro mult_left_mono) simp_all
  have l2: "h * (- 1) \<le> h * cos (p + q)"
    using h c2 by (intro mult_left_mono) simp_all
  from u1 l1 u2 l2 show ?thesis
    unfolding a' by simp
qed

lemma atan2_sqrt:
  assumes "0 \<le> a" "a \<le> 1"
  shows "atan2 (sqrt a) (sqrt (1 - a)) = arcsin (sqrt a)"
proof (cases "a = 1")
  case True
  then show ?thesis by (simp add: atan2_def)
next
  case False
  with assms have lt: "a < 1" by simp
  then have pos: "0 < sqrt (1 - a)" by simp
  have "sqrt a < 1"
    using lt assms by simp
  moreover have "- 1 < sqrt a"
    using assms by (smt (verit) real_sqrt_ge_zero)
  ultimately have "arcsin (sqrt a) = arctan (sqrt a / sqrt (1 - (sqrt a)\<^sup>2))"
    by (rule arcsin_arctan [rotated])
  with assms pos show ?thesis
    by (simp add: atan2_def)
qed

lemma calculateDistance_haversine:
  "calculateDistance lat1 lon1 lat2 lon2 = haversine_distance lat1 lon1 lat2 lon2"
proof -
  from haversine_a_bounds [of lat1 lon1 lat2 lon2]
  have "atan2 (sqrt (haversine_a lat1 lon1 lat2 lon2)) (sqrt (1 - haversine_a lat1 lon1 lat2 lon2)) =
      arcsin (sqrt (haversine_a lat1 lon1 lat2 lon2))"
    by (intro atan2_sqrt) simp_all
  then show ?thesis
    by (simp add: calculateDistance_def haversine_distance_def Let_def haversine_a_eq)
qed

text \<open>
  C7. \<open>isWithinGeofence\<close> classifies the user as inside exactly when the haversine
  great-circle distance between the user's and the office's coordinates is at most the
  radius; a point whose distance is exactly the radius is inside. (Over the real numbers:
  \<open>calculateDistance\<close> is the haversine distance for all coordinates.)
\<close>

theorem isWithinGeofence_iff:
  "(isWithinGeofence userLat userLon officeLat officeLon radius \<longleftrightarrow>
      haversine_distance userLat userLon officeLat officeLon \<le> radius) \<and>
   isWithinGeofence userLat userLon officeLat officeLon
     (haversine_distance userLat userLon officeLat officeLon)"
  by (simp add: isWithinGeofence_def calculateDistance_haversine)

end
